theory Spec2Isabelle
  imports Main
begin

section \<open>Values shared by the mail client\<close>

text \<open>
  A Python \<^verbatim>\<open>bytes\<close> object is a list of bytes. A Python \<^verbatim>\<open>str\<close> is written as a
  \<^typ>\<open>string\<close> too: the list of the bytes of its UTF-8 encoding, so that an ASCII text is
  the list of its characters and the empty text is the empty list.
\<close>

type_synonym bytes = string

text \<open>
  The fields of a \<^verbatim>\<open>datetime\<close> that the client reads. Every \<^verbatim>\<open>datetime\<close> object is
  truthy, so \<^verbatim>\<open>if before:\<close> only asks whether a date was given.
\<close>

record datetime =
  year :: nat
  month :: nat
  day :: nat
  hour :: nat
  minute :: nat
  second :: nat

section \<open>Search criteria\<close>

text \<open>
  The nine filter parameters that \<^verbatim>\<open>get_emails_stream\<close>, \<^verbatim>\<open>get_email_count\<close> and
  \<^verbatim>\<open>get_emails\<close> hand on to \<^verbatim>\<open>_build_search_criteria\<close>, each \<^verbatim>\<open>None\<close> by default.
\<close>

record search_filter =
  before :: "datetime option"
  since :: "datetime option"
  subject :: "string option"
  body :: "string option"
  text_contains :: "string option"
  from_address :: "string option"
  to_address :: "string option"
  is_unread :: "bool option"
  is_flagged :: "bool option"

definition digit_char :: "nat \<Rightarrow> char" where
  "digit_char d = char_of (48 + d mod 10)"

definition month_abbr :: "nat \<Rightarrow> string" where
  "month_abbr m =
     [''Jan'', ''Feb'', ''Mar'', ''Apr'', ''May'', ''Jun'',
      ''Jul'', ''Aug'', ''Sep'', ''Oct'', ''Nov'', ''Dec''] ! ((m - 1) mod 12)"

text \<open>
  \<^verbatim>\<open>strftime("%d-%b-%Y")\<close> in the C locale: the day in two digits, the month's English
  abbreviation, the year in four digits (a \<^verbatim>\<open>datetime\<close> has a month from 1 to 12 and a
  year from 1 to 9999; whether a year below 1000 is padded with zeros, as it is here, is
  the C library's choice).
\<close>

definition strftime_d_b_Y :: "datetime \<Rightarrow> string" where
  "strftime_d_b_Y d =
     [digit_char (day d div 10), digit_char (day d)] @ ''-'' @ month_abbr (month d) @ ''-'' @
     [digit_char (year d div 1000), digit_char (year d div 100),
      digit_char (year d div 10), digit_char (year d)]"

definition upper_char :: "char \<Rightarrow> char" where
  "upper_char c =
     (if 97 \<le> (of_char c :: nat) \<and> (of_char c :: nat) \<le> 122
      then char_of ((of_char c :: nat) - 32) else c)"

definition upper :: "string \<Rightarrow> string" where
  "upper s = map upper_char s"

text \<open>
  Python's truth test on an optional text: \<^verbatim>\<open>None\<close> and the empty text are both false.
  The result is the text to use, if any.
\<close>

fun truthy_str :: "string option \<Rightarrow> string option" where
  "truthy_str None = None"
| "truthy_str (Some s) = (if s = [] then None else Some s)"

text \<open>\<^verbatim>\<open>_add_flag_criteria\<close>: appends to the list it is given (here: returns the longer list).\<close>

definition add_flag_criteria :: "string list \<Rightarrow> bool option \<Rightarrow> bool option \<Rightarrow> string list" where
  "add_flag_criteria search_criteria unread flagged =
     (let c1 = (case unread of
                  Some True \<Rightarrow> search_criteria @ [''UNSEEN'']
                | Some False \<Rightarrow> search_criteria @ [''SEEN'']
                | None \<Rightarrow> search_criteria)
      in (case flagged of
            Some True \<Rightarrow> c1 @ [''FLAGGED'']
          | Some False \<Rightarrow> c1 @ [''UNFLAGGED'']
          | None \<Rightarrow> c1))"

text \<open>
  What one \<^verbatim>\<open>if\<close> of \<^verbatim>\<open>_build_search_criteria\<close> extends the list by: for a date,
  \<^verbatim>\<open>[KEY, d.strftime("%d-%b-%Y").upper()]\<close> when the date is given; for a text,
  \<^verbatim>\<open>[KEY, value]\<close> when the value is true.
\<close>

definition date_criterion :: "string \<Rightarrow> datetime option \<Rightarrow> string list" where
  "date_criterion key d =
     (case d of None \<Rightarrow> [] | Some dt \<Rightarrow> [key, upper (strftime_d_b_Y dt)])"

definition text_criterion :: "string \<Rightarrow> string option \<Rightarrow> string list" where
  "text_criterion key v =
     (case truthy_str v of None \<Rightarrow> [] | Some s \<Rightarrow> [key, s])"

text \<open>\<^verbatim>\<open>_build_search_criteria\<close>, the extensions in the order of the source.\<close>

definition build_search_criteria :: "search_filter \<Rightarrow> string list" where
  "build_search_criteria f =
     (let search_criteria =
            date_criterion ''BEFORE'' (before f) @
            date_criterion ''SINCE'' (since f) @
            text_criterion ''SUBJECT'' (subject f) @
            text_criterion ''BODY'' (body f) @
            text_criterion ''TEXT'' (text_contains f) @
            text_criterion ''FROM'' (from_address f) @
            text_criterion ''TO'' (to_address f);
          search_criteria = add_flag_criteria search_criteria (is_unread f) (is_flagged f)
      in if search_criteria = [] then [''ALL''] else search_criteria)"

text \<open>The filter of a call that passes no filter argument.\<close>

definition no_filter :: search_filter where
  "no_filter = \<lparr>before = None, since = None, subject = None, body = None,
     text_contains = None, from_address = None, to_address = None,
     is_unread = None, is_flagged = None\<rparr>"

section \<open>Bytes and text\<close>

text \<open>\<^verbatim>\<open>hay.startswith(sub)\<close>.\<close>

fun startswith :: "bytes \<Rightarrow> bytes \<Rightarrow> bool" where
  "startswith hay [] = True"
| "startswith [] (c # sub) = False"
| "startswith (h # hay) (c # sub) = (h = c \<and> startswith hay sub)"

text \<open>
  The index of the first place at or after position \<open>i\<close> where \<open>sub\<close> occurs, the list
  given being what is left of the searched bytes from \<open>i\<close> on; \<open>-1\<close> when there is none.
\<close>

fun find_at :: "bytes \<Rightarrow> bytes \<Rightarrow> nat \<Rightarrow> int" where
  "find_at [] sub i = (if sub = [] then int i else - 1)"
| "find_at (h # hay) sub i =
     (if startswith (h # hay) sub then int i else find_at hay sub (Suc i))"

text \<open>\<^verbatim>\<open>hay.find(sub)\<close>, \<^verbatim>\<open>hay.find(sub, start)\<close> for \<open>start \<ge> 0\<close>, and \<^verbatim>\<open>sub in hay\<close>.\<close>

definition bytes_find :: "bytes \<Rightarrow> bytes \<Rightarrow> int" where
  "bytes_find hay sub = find_at hay sub 0"

definition bytes_find_from :: "bytes \<Rightarrow> bytes \<Rightarrow> nat \<Rightarrow> int" where
  "bytes_find_from hay sub start =
     (if start \<le> length hay then find_at (drop start hay) sub start else - 1)"

definition bytes_in :: "bytes \<Rightarrow> bytes \<Rightarrow> bool" where
  "bytes_in sub hay = (0 \<le> bytes_find hay sub)"

text \<open>
  A slice \<^verbatim>\<open>xs[start:end]\<close> with integer bounds: a negative bound counts from the end of
  the list, and both bounds are then clamped into \<open>0 .. len(xs)\<close>.
\<close>

definition slice_index :: "int \<Rightarrow> int \<Rightarrow> int" where
  "slice_index n i = (if i < 0 then max (n + i) 0 else min i n)"

definition py_slice :: "'a list \<Rightarrow> int \<Rightarrow> int \<Rightarrow> 'a list" where
  "py_slice xs start end' =
     (let n = int (length xs); lo = slice_index n start; hi = slice_index n end'
      in take (nat (hi - lo)) (drop (nat lo) xs))"

text \<open>\<^verbatim>\<open>bytes.split()\<close>: the maximal runs of bytes that are not ASCII white space.\<close>

definition is_ascii_space :: "char \<Rightarrow> bool" where
  "is_ascii_space c = (c \<in> set [CHR 0x20, CHR 0x09, CHR 0x0A, CHR 0x0D, CHR 0x0B, CHR 0x0C])"

fun split_ws :: "bytes \<Rightarrow> bytes \<Rightarrow> bytes list" where
  "split_ws word [] = (if word = [] then [] else [word])"
| "split_ws word (c # cs) =
     (if is_ascii_space c
      then (if word = [] then split_ws [] cs else word # split_ws [] cs)
      else split_ws (word @ [c]) cs)"

definition bytes_split :: "bytes \<Rightarrow> bytes list" where
  "bytes_split bs = split_ws [] bs"

text \<open>\<^verbatim>\<open>sep.join(parts)\<close>.\<close>

fun join :: "string \<Rightarrow> string list \<Rightarrow> string" where
  "join sep [] = []"
| "join sep [p] = p"
| "join sep (p # q # ps) = p @ sep @ join sep (q # ps)"

subsection \<open>Exceptions\<close>

text \<open>
  The exceptions the client can meet, all of them subclasses of \<^verbatim>\<open>Exception\<close>. The ones the
  code or the interpreter tells apart have a constructor of their own; \<open>OtherError\<close> stands
  for any other, with its message.
\<close>

datatype py_exception =
  UnicodeDecodeError | LookupError | IndexError | TypeError | OtherError string

subsection \<open>UTF-8\<close>

text \<open>
  The three ways the client decodes UTF-8: \<^verbatim>\<open>errors="strict"\<close> (the default),
  \<^verbatim>\<open>"replace"\<close> and \<^verbatim>\<open>"ignore"\<close>.
\<close>

datatype errors = Strict | Replace | Ignore

text \<open>
  For a lead byte of a multi-byte sequence: how many continuation bytes follow, and the
  range the first of them must lie in (the later ones lie in \<open>80 .. BF\<close>). The ranges
  exclude overlong forms, surrogates and code points past \<open>10FFFF\<close>.
\<close>

definition utf8_lead :: "char \<Rightarrow> (nat \<times> nat \<times> nat) option" where
  "utf8_lead c =
     (let b = (of_char c :: nat) in
      if 0xC2 \<le> b \<and> b \<le> 0xDF then Some (1, 0x80, 0xBF)
      else if b = 0xE0 then Some (2, 0xA0, 0xBF)
      else if b = 0xED then Some (2, 0x80, 0x9F)
      else if 0xE1 \<le> b \<and> b \<le> 0xEF then Some (2, 0x80, 0xBF)
      else if b = 0xF0 then Some (3, 0x90, 0xBF)
      else if 0xF1 \<le> b \<and> b \<le> 0xF3 then Some (3, 0x80, 0xBF)
      else if b = 0xF4 then Some (3, 0x80, 0x8F)
      else None)"

text \<open>What an ill-formed piece of the input contributes, in front of the rest's decoding.\<close>

fun on_error :: "errors \<Rightarrow> string option \<Rightarrow> string option" where
  "on_error Strict rest = None"
| "on_error Replace rest = map_option (\<lambda>r. [CHR 0xEF, CHR 0xBF, CHR 0xBD] @ r) rest"
| "on_error Ignore rest = rest"

text \<open>
  The decoder reads one byte at a time. \<open>need\<close> is the number of continuation bytes the
  sequence being read still lacks, \<open>(lo, hi)\<close> the range of the next one and \<open>seen\<close> the
  bytes of the sequence read so far. A sequence that breaks off counts as one error (the
  longest part of it that could begin a well-formed sequence), and the byte that broke it
  is read again as the start of a new sequence. The result is \<open>None\<close> where Python raises
  \<^verbatim>\<open>UnicodeDecodeError\<close>.
\<close>

fun utf8_scan :: "errors \<Rightarrow> nat \<Rightarrow> nat \<times> nat \<Rightarrow> bytes \<Rightarrow> bytes \<Rightarrow> string option" where
  "utf8_scan h need rng seen [] = (if need = 0 then Some [] else on_error h (Some []))"
| "utf8_scan h need rng seen (c # cs) =
     (if 0 < need \<and> fst rng \<le> (of_char c :: nat) \<and> (of_char c :: nat) \<le> snd rng
      then (if need = 1
            then map_option (\<lambda>r. seen @ [c] @ r) (utf8_scan h 0 (0, 0) [] cs)
            else utf8_scan h (need - 1) (0x80, 0xBF) (seen @ [c]) cs)
      else
        (let fresh =
               (if (of_char c :: nat) < 0x80
                then map_option (\<lambda>r. c # r) (utf8_scan h 0 (0, 0) [] cs)
                else (case utf8_lead c of
                        Some (k, lo, hi) \<Rightarrow> utf8_scan h k (lo, hi) [c] cs
                      | None \<Rightarrow> on_error h (utf8_scan h 0 (0, 0) [] cs)))
         in if 0 < need then on_error h fresh else fresh))"

definition utf8_decode :: "errors \<Rightarrow> bytes \<Rightarrow> string option" where
  "utf8_decode h bs = utf8_scan h 0 (0, 0) [] bs"

text \<open>\<^verbatim>\<open>bs.decode("utf-8", errors="replace")\<close> and \<^verbatim>\<open>errors="ignore"\<close>: they never raise.\<close>

definition utf8_lossy :: "errors \<Rightarrow> bytes \<Rightarrow> string" where
  "utf8_lossy h bs = (case utf8_decode h bs of Some s \<Rightarrow> s | None \<Rightarrow> [])"

section \<open>The library the client runs on\<close>

text \<open>
  What \<^verbatim>\<open>BytesParser(policy=default).parsebytes\<close> returns, as far as the client looks at
  it. A part answers \<^verbatim>\<open>get_content_type()\<close>, \<^verbatim>\<open>get("Content-Disposition")\<close>,
  \<^verbatim>\<open>get_filename()\<close>, \<^verbatim>\<open>get_payload(decode=True)\<close> and the \<^verbatim>\<open>charset\<close> parameter of its
  content type; each of the last four can be missing.
\<close>

record mime_part =
  content_type :: string
  content_disposition :: "string option"
  filename :: "string option"
  payload :: "bytes option"
  charset_param :: "string option"

text \<open>
  A message is its root part, the parts below it in the order of \<^verbatim>\<open>walk()\<close> (which starts
  with the root itself), and the three headers the client reads.
\<close>

record email_message =
  subject_header :: "string option"
  from_header :: "string option"
  date_header :: "string option"
  is_multipart :: bool
  root :: mime_part
  subparts :: "mime_part list"

text \<open>An outgoing message: its headers in the order they were set, and its text.\<close>

record mime_message =
  headers :: "(string \<times> string) list"
  text_payload :: string

text \<open>
  The functions of Python's library whose results the model does not compute are taken as
  given: the codecs other than UTF-8 by name (\<open>None\<close> for a name that
  \<^verbatim>\<open>bytes.decode\<close> does not know, which raises \<^verbatim>\<open>LookupError\<close>), \<^verbatim>\<open>str.split()\<close>, the
  message parser, \<^verbatim>\<open>email.utils.parsedate_tz\<close>,
  \<^verbatim>\<open>datetime.fromtimestamp(email.utils.mktime_tz(t))\<close>, the clock read by
  \<^verbatim>\<open>datetime.now()\<close>, and the constructor \<^verbatim>\<open>MIMEText(body)\<close>.
\<close>

record py_runtime =
  codecs :: "string \<Rightarrow> (bytes \<Rightarrow> py_exception + string) option"
  str_split :: "string \<Rightarrow> string list"
  parsebytes :: "bytes \<Rightarrow> email_message"
  parsedate_tz :: "string \<Rightarrow> py_exception + int list option"
  fromtimestamp :: "int list \<Rightarrow> py_exception + datetime"
  now :: datetime
  MIMEText :: "string \<Rightarrow> mime_message"

text \<open>\<^verbatim>\<open>bs.decode(charset)\<close>.\<close>

definition bytes_decode :: "py_runtime \<Rightarrow> bytes \<Rightarrow> string \<Rightarrow> py_exception + string" where
  "bytes_decode rt bs charset =
     (if charset = ''utf-8''
      then (case utf8_decode Strict bs of None \<Rightarrow> Inl UnicodeDecodeError | Some s \<Rightarrow> Inr s)
      else (case codecs rt charset of None \<Rightarrow> Inl LookupError | Some decoder \<Rightarrow> decoder bs))"

section \<open>Parsing a message\<close>

text \<open>
  The \<^verbatim>\<open>try\<close> around each \<^verbatim>\<open>decode(charset)\<close>: only \<^verbatim>\<open>UnicodeDecodeError\<close> is caught and
  answered by the lossy decoding; any other exception leaves the parser.
\<close>

definition decode_or_replace :: "py_runtime \<Rightarrow> bytes \<Rightarrow> string \<Rightarrow> py_exception + string" where
  "decode_or_replace rt bs charset =
     (case bytes_decode rt bs charset of
        Inr s \<Rightarrow> Inr s
      | Inl UnicodeDecodeError \<Rightarrow> Inr (utf8_lossy Replace bs)
      | Inl e \<Rightarrow> Inl e)"

text \<open>\<^verbatim>\<open>get_content_charset("utf-8")\<close>.\<close>

definition get_content_charset :: "mime_part \<Rightarrow> string" where
  "get_content_charset part = (case charset_param part of None \<Rightarrow> ''utf-8'' | Some c \<Rightarrow> c)"

text \<open>\<^verbatim>\<open>msg.get(name, "")\<close>.\<close>

definition get_or_empty :: "string option \<Rightarrow> string" where
  "get_or_empty h = (case h of None \<Rightarrow> [] | Some v \<Rightarrow> v)"

text \<open>The dictionary \<^verbatim>\<open>_parse_email_data\<close> returns, one field for each key.\<close>

record parsed_email =
  k_subject :: string
  k_from :: string
  k_body :: string
  k_date :: datetime
  k_attachments :: "string list"

text \<open>The loop over \<^verbatim>\<open>email_message.walk()\<close>, with the body and the attachments so far.\<close>

fun walk_parts ::
  "py_runtime \<Rightarrow> mime_part list \<Rightarrow> string \<Rightarrow> string list \<Rightarrow> py_exception + string \<times> string list"
where
  "walk_parts rt [] body' attachments = Inr (body', attachments)"
| "walk_parts rt (part # parts) body' attachments =
     (if bytes_in ''attachment'' (get_or_empty (content_disposition part))
      then (case filename part of
              None \<Rightarrow> walk_parts rt parts body' attachments
            | Some name \<Rightarrow>
                if name = [] then walk_parts rt parts body' attachments
                else walk_parts rt parts body' (attachments @ [name]))
      else if content_type part = ''text/plain''
      then (case payload part of
              None \<Rightarrow> walk_parts rt parts body' attachments
            | Some body_part \<Rightarrow>
                if body_part = [] then walk_parts rt parts body' attachments
                else (case decode_or_replace rt body_part (get_content_charset part) of
                        Inl e \<Rightarrow> Inl e
                      | Inr s \<Rightarrow> walk_parts rt parts (body' @ s) attachments))
      else walk_parts rt parts body' attachments)"

text \<open>The date: any failure, and a date that does not parse, give the clock's time.\<close>

definition parse_date :: "py_runtime \<Rightarrow> string \<Rightarrow> datetime" where
  "parse_date rt date_str =
     (case parsedate_tz rt date_str of
        Inl e \<Rightarrow> now rt
      | Inr None \<Rightarrow> now rt
      | Inr (Some date_tuple) \<Rightarrow>
          (case fromtimestamp rt date_tuple of Inl e \<Rightarrow> now rt | Inr d \<Rightarrow> d))"

text \<open>\<^verbatim>\<open>_parse_email_data\<close>: \<open>Inl\<close> is an exception that leaves it.\<close>

definition parse_email_data :: "py_runtime \<Rightarrow> bytes \<Rightarrow> py_exception + parsed_email" where
  "parse_email_data rt raw_email =
     (let email_message = parsebytes rt raw_email;
          subject' = get_or_empty (subject_header email_message);
          sender = get_or_empty (from_header email_message);
          date_str = get_or_empty (date_header email_message);
          date = parse_date rt date_str;
          found =
            (if is_multipart email_message
             then walk_parts rt (root email_message # subparts email_message) [] []
             else (case payload (root email_message) of
                     None \<Rightarrow> Inr ([], [])
                   | Some p \<Rightarrow>
                       if p = [] then Inr ([], [])
                       else (case decode_or_replace rt p (get_content_charset (root email_message)) of
                               Inl e \<Rightarrow> Inl e
                             | Inr s \<Rightarrow> Inr (s, []))))
      in (case found of
            Inl e \<Rightarrow> Inl e
          | Inr (body', attachments) \<Rightarrow>
              Inr \<lparr>k_subject = subject', k_from = sender, k_body = body', k_date = date,
                   k_attachments = attachments\<rparr>))"

section \<open>The mailbox session\<close>

text \<open>The account settings of \<^verbatim>\<open>EmailServer\<close> and the fields of an \<^verbatim>\<open>EmailClient\<close>.\<close>

record EmailServer =
  user_name :: string
  password :: string
  host :: string
  port :: int
  use_ssl :: bool
  start_ssl :: bool

record email_client =
  email_server :: EmailServer
  sender :: string

text \<open>\<^verbatim>\<open>EmailClient.__init__\<close>: \<^verbatim>\<open>sender or email_server.user_name\<close>.\<close>

definition EmailClient :: "EmailServer \<Rightarrow> string option \<Rightarrow> email_client" where
  "EmailClient server sender' =
     \<lparr>email_server = server,
      sender = (case truthy_str sender' of None \<Rightarrow> user_name server | Some s \<Rightarrow> s)\<rparr>"

text \<open>A fragment of a response is a \<^verbatim>\<open>bytes\<close> or a \<^verbatim>\<open>bytearray\<close> object.\<close>

datatype item = Bytes bytes | ByteArray bytes

fun content :: "item \<Rightarrow> bytes" where
  "content (Bytes bs) = bs"
| "content (ByteArray bs) = bs"

fun is_bytes :: "item \<Rightarrow> bool" where
  "is_bytes (Bytes bs) = True"
| "is_bytes (ByteArray bs) = False"

text \<open>
  What the client asks of the IMAP library, with the arguments it passes, and what it
  writes to the log: the level and the message as the source has it, placeholders left
  as they are.
\<close>

datatype imap_command =
  Create bool string int | ClientTask | WaitHello | Login string string | ClientId string string |
  Select string | UidSearch "string list" | UidFetch string string | Logout

datatype log_level = DEBUG | INFO | WARNING | ERROR

datatype event = Cmd imap_command | Log log_level string

text \<open>
  \<^verbatim>\<open>self.imap_class(host, port)\<close>: the class is \<^verbatim>\<open>IMAP4_SSL\<close> for an account with
  \<^verbatim>\<open>use_ssl\<close> and \<^verbatim>\<open>IMAP4\<close> otherwise.
\<close>

definition imap_class :: "email_client \<Rightarrow> imap_command" where
  "imap_class self =
     Create (use_ssl (email_server self)) (host (email_server self)) (port (email_server self))"

text \<open>
  One session's side of the conversation: for each call whether it raises, and for a
  search and a fetch the second component of the response, which the library types as a
  list of lines and the client also expects to be \<^verbatim>\<open>None\<close>. A response depends on the
  arguments of the call only.
\<close>

record imap_server =
  create :: "py_exception option"
  client_task :: "py_exception option"
  wait_hello_from_server :: "py_exception option"
  login :: "py_exception option"
  id_command :: "py_exception option"
  select :: "py_exception option"
  uid_search :: "string list \<Rightarrow> py_exception + bytes list option"
  uid_fetch :: "string \<Rightarrow> string \<Rightarrow> py_exception + item list option"
  logout :: "py_exception option"

text \<open>
  A computation that writes events and then returns a value or raises. \<open>then_do\<close> runs
  its second part only when the first has returned.
\<close>

type_synonym 'a io = "event list \<times> (py_exception + 'a)"

definition returns :: "'a \<Rightarrow> 'a io" where
  "returns x = ([], Inr x)"

definition call :: "imap_command \<Rightarrow> py_exception option \<Rightarrow> unit io" where
  "call c r = ([Cmd c], (case r of None \<Rightarrow> Inr () | Some e \<Rightarrow> Inl e))"

definition logger :: "log_level \<Rightarrow> string \<Rightarrow> unit io" where
  "logger level msg = ([Log level msg], Inr ())"

definition then_do :: "'a io \<Rightarrow> ('a \<Rightarrow> 'b io) \<Rightarrow> 'b io" where
  "then_do m f =
     (case m of
        (evs, Inl e) \<Rightarrow> (evs, Inl e)
      | (evs, Inr x) \<Rightarrow> (case f x of (evs', r) \<Rightarrow> (evs @ evs', r)))"

text \<open>The \<^verbatim>\<open>finally\<close> block of both operations: a failing logout is logged and dropped.\<close>

definition finally_logout :: "imap_server \<Rightarrow> event list" where
  "finally_logout srv =
     Cmd Logout #
     (case logout srv of None \<Rightarrow> [] | Some e \<Rightarrow> [Log INFO ''Error during logout: {e}''])"

section \<open>Counting\<close>

text \<open>
  \<^verbatim>\<open>get_email_count\<close>. \<^verbatim>\<open>messages[0]\<close> raises \<^verbatim>\<open>TypeError\<close> on \<^verbatim>\<open>None\<close> and
  \<^verbatim>\<open>IndexError\<close> on an empty list.
\<close>

definition count_body :: "email_client \<Rightarrow> imap_server \<Rightarrow> search_filter \<Rightarrow> int io" where
  "count_body self srv flt =
     then_do (call ClientTask (client_task srv)) (\<lambda>_.
     then_do (call WaitHello (wait_hello_from_server srv)) (\<lambda>_.
     then_do (call (Login (user_name (email_server self)) (password (email_server self))) (login srv)) (\<lambda>_.
     then_do (call (Select ''INBOX'') (select srv)) (\<lambda>_.
     let search_criteria = build_search_criteria flt in
     then_do (logger INFO ''Count: Search criteria: {search_criteria}'') (\<lambda>_.
     then_do ([Cmd (UidSearch search_criteria)], uid_search srv search_criteria) (\<lambda>messages.
       (case messages of
          None \<Rightarrow> ([], Inl TypeError)
        | Some [] \<Rightarrow> ([], Inl IndexError)
        | Some (m # ms) \<Rightarrow> returns (int (length (bytes_split m))))))))))"

definition get_email_count :: "email_client \<Rightarrow> imap_server \<Rightarrow> search_filter \<Rightarrow> int io" where
  "get_email_count self srv flt =
     (case create srv of
        Some e \<Rightarrow> ([Cmd (imap_class self)], Inl e)
      | None \<Rightarrow>
          (case count_body self srv flt of
             (evs, r) \<Rightarrow>
               (Cmd (imap_class self) # evs @ finally_logout srv,
                r)))"

section \<open>Streaming\<close>

subsection \<open>The page\<close>

text \<open>
  Lines 130 to 137 of \<^verbatim>\<open>get_emails_stream\<close>: the identifiers the loop runs over. The
  order is reversed for \<^verbatim>\<open>"desc"\<close> and for no other text.
\<close>

definition page_window :: "string \<Rightarrow> int \<Rightarrow> int \<Rightarrow> bytes list \<Rightarrow> bytes list" where
  "page_window order page page_size message_ids =
     (let start = (page - 1) * page_size;
          end' = start + page_size;
          message_ids = (if order = ''desc'' then rev message_ids else message_ids)
      in py_slice message_ids start end')"

subsection \<open>Fetching one message\<close>

definition fetch_formats :: "string list" where
  "fetch_formats = [''(BODY.PEEK[] FLAGS)'', ''BODY.PEEK[] FLAGS'', ''(BODY[] FLAGS)'', ''(RFC822 FLAGS)'']"

text \<open>
  The inner loop over the fragments of one response: a \<^verbatim>\<open>bytes\<close> fragment with
  \<^verbatim>\<open>FETCH (\<close> and neither \<^verbatim>\<open>RFC822\<close> nor \<^verbatim>\<open>BODY\<close> is passed over; the first other fragment
  longer than 100 bytes is content.
\<close>

fun has_content :: "item list \<Rightarrow> bool" where
  "has_content [] = False"
| "has_content (item' # rest) =
     (if is_bytes item' \<and> bytes_in ''FETCH ('' (content item') \<and>
         \<not> bytes_in ''RFC822'' (content item') \<and> \<not> bytes_in ''BODY'' (content item')
      then has_content rest
      else if 100 < length (content item') then True
      else has_content rest)"

text \<open>
  The loop over the request formats, from the format given on, with the value of \<^verbatim>\<open>data\<close>
  so far. A response that is \<^verbatim>\<open>None\<close> or empty stays in \<^verbatim>\<open>data\<close> and the loop goes on; a
  response without content and a raising fetch set \<^verbatim>\<open>data\<close> to \<^verbatim>\<open>None\<close>; a response with
  content ends the loop.
\<close>

fun try_formats ::
  "imap_server \<Rightarrow> string \<Rightarrow> string list \<Rightarrow> item list option \<Rightarrow> event list \<times> item list option"
where
  "try_formats srv uid [] data = ([], data)"
| "try_formats srv uid (fetch_format # rest) data =
     (case uid_fetch srv uid fetch_format of
        Inl e \<Rightarrow>
          (case try_formats srv uid rest None of
             (evs, d) \<Rightarrow>
               (Cmd (UidFetch uid fetch_format) #
                Log DEBUG ''Fetch format {fetch_format} failed: {e}'' # evs, d))
      | Inr None \<Rightarrow>
          (case try_formats srv uid rest None of
             (evs, d) \<Rightarrow> (Cmd (UidFetch uid fetch_format) # evs, d))
      | Inr (Some []) \<Rightarrow>
          (case try_formats srv uid rest (Some []) of
             (evs, d) \<Rightarrow> (Cmd (UidFetch uid fetch_format) # evs, d))
      | Inr (Some (i # items)) \<Rightarrow>
          if has_content (i # items) then ([Cmd (UidFetch uid fetch_format)], Some (i # items))
          else (case try_formats srv uid rest None of
                  (evs, d) \<Rightarrow> (Cmd (UidFetch uid fetch_format) # evs, d)))"

text \<open>
  The flags of one fragment, or the flags so far when it has none to give:
  \<^verbatim>\<open>find\<close> returns \<open>-1\<close> for a missing closing bracket, and an empty pair of brackets
  has \<^verbatim>\<open>end == start\<close>.
\<close>

definition parse_flags :: "py_runtime \<Rightarrow> item \<Rightarrow> string list \<Rightarrow> event list \<times> string list" where
  "parse_flags rt item' email_flags =
     (if is_bytes item' \<and> bytes_in ''FLAGS ('' (content item')
      then (let start = bytes_find (content item') ''FLAGS ('' + 7;
                end' = bytes_find_from (content item') '')'' (nat start)
            in if 6 < start \<and> start < end'
               then ([Log DEBUG ''Parsed flags from IMAP: {email_flags}''],
                     str_split rt (utf8_lossy Ignore (py_slice (content item') start end')))
               else ([], email_flags))
      else ([], email_flags))"

text \<open>
  Which fragment is taken for the message: one longer than 100 bytes, unless it is a
  \<^verbatim>\<open>bytes\<close> fragment with \<^verbatim>\<open>FETCH\<close> in it and neither \<^verbatim>\<open>From:\<close> nor \<^verbatim>\<open>Subject:\<close>.
\<close>

definition is_email_content :: "item \<Rightarrow> bool" where
  "is_email_content item' =
     (100 < length (content item') \<and>
      \<not> (is_bytes item' \<and> bytes_in ''FETCH'' (content item') \<and>
         \<not> (bytes_in ''From:'' (content item') \<or> bytes_in ''Subject:'' (content item'))))"

text \<open>The second loop over the fragments: the last flags and the last content win.\<close>

fun scan_response ::
  "py_runtime \<Rightarrow> item list \<Rightarrow> bytes option \<Rightarrow> string list \<Rightarrow>
   event list \<times> bytes option \<times> string list"
where
  "scan_response rt [] raw_email email_flags = ([], raw_email, email_flags)"
| "scan_response rt (item' # rest) raw_email email_flags =
     (case parse_flags rt item' email_flags of
        (evs, email_flags) \<Rightarrow>
          (case scan_response rt rest
                  (if is_email_content item' then Some (content item') else raw_email)
                  email_flags of
             (evs', r, fl) \<Rightarrow> (evs @ evs', r, fl)))"

text \<open>The dictionary that the stream yields: the parser's keys and the seven it adds.\<close>

record email_dict = parsed_email +
  k_flags :: "string list"
  k_is_read :: bool
  k_is_answered :: bool
  k_is_flagged :: bool
  k_is_deleted :: bool
  k_is_draft :: bool
  k_is_recent :: bool

text \<open>A system flag is written with a backslash, as in \<^verbatim>\<open>r"\Seen"\<close>.\<close>

definition system_flag :: "string \<Rightarrow> string" where
  "system_flag name = CHR 0x5C # name"

definition with_flags :: "parsed_email \<Rightarrow> string list \<Rightarrow> email_dict" where
  "with_flags parsed email_flags =
     \<lparr>k_subject = k_subject parsed, k_from = k_from parsed, k_body = k_body parsed,
      k_date = k_date parsed, k_attachments = k_attachments parsed,
      k_flags = email_flags,
      k_is_read = (system_flag ''Seen'' \<in> set email_flags),
      k_is_answered = (system_flag ''Answered'' \<in> set email_flags),
      k_is_flagged = (system_flag ''Flagged'' \<in> set email_flags),
      k_is_deleted = (system_flag ''Deleted'' \<in> set email_flags),
      k_is_draft = (system_flag ''Draft'' \<in> set email_flags),
      k_is_recent = (system_flag ''Recent'' \<in> set email_flags)\<rparr>"

text \<open>The debug lines written before the second loop, one for each \<^verbatim>\<open>bytes\<close> fragment.\<close>

definition debug_response :: "item list \<Rightarrow> event list" where
  "debug_response data =
     Log DEBUG ''IMAP response for UID {message_id_str}: {len(data)} items'' #
     map (\<lambda>i. Log DEBUG ''  Item {i} (bytes): {item[:200]}...'') (filter is_bytes data)"

text \<open>
  The body of the loop for one identifier: the events, and the dictionary it yields if it
  yields one. Every exception raised in it is caught in it.
\<close>

definition process_message ::
  "py_runtime \<Rightarrow> imap_server \<Rightarrow> bytes \<Rightarrow> event list \<times> email_dict option"
where
  "process_message rt srv message_id =
     (case bytes_decode rt message_id ''utf-8'' of
        Inl e \<Rightarrow> ([Log ERROR ''Error fetching message {message_id}: {e!s}''], None)
      | Inr message_id_str \<Rightarrow>
          (case try_formats srv message_id_str fetch_formats None of
             (evs, None) \<Rightarrow>
               (evs @ [Log ERROR ''Failed to fetch UID {message_id_str} with any format''], None)
           | (evs, Some []) \<Rightarrow>
               (evs @ [Log ERROR ''Failed to fetch UID {message_id_str} with any format''], None)
           | (evs, Some (i # items)) \<Rightarrow>
               (case scan_response rt (i # items) None [] of
                  (evs', None, email_flags) \<Rightarrow>
                    (evs @ debug_response (i # items) @ evs' @
                     [Log ERROR ''Could not find email data in response for message ID: {message_id_str}''],
                     None)
                | (evs', Some raw_email, email_flags) \<Rightarrow>
                    (case parse_email_data rt raw_email of
                       Inl e \<Rightarrow>
                         (evs @ debug_response (i # items) @ evs' @
                          [Log ERROR ''Error parsing email: {e!s}''], None)
                     | Inr parsed_email \<Rightarrow>
                         (evs @ debug_response (i # items) @ evs',
                          Some (with_flags parsed_email email_flags))))))"

subsection \<open>The generator\<close>

text \<open>
  How a run of the generator ends: its body ran to the end, an exception left it, or the
  consumer closed it (\<^verbatim>\<open>aclose()\<close>, which raises \<^verbatim>\<open>GeneratorExit\<close> at the \<^verbatim>\<open>yield\<close> where
  the generator waits; \<^verbatim>\<open>except Exception\<close> does not catch it, \<^verbatim>\<open>finally\<close> runs).
\<close>

datatype exit = Completed | Raised py_exception | Closed

text \<open>
  The consumer is \<open>None\<close> when it reads the stream to its end and \<open>Some n\<close> when it closes
  the generator after taking \<open>n\<close> dictionaries. The loop over the page: after a \<^verbatim>\<open>yield\<close>
  the next identifier is fetched only if the consumer asks for more.
\<close>

fun fetch_loop ::
  "py_runtime \<Rightarrow> imap_server \<Rightarrow> bytes list \<Rightarrow> nat option \<Rightarrow>
   event list \<times> email_dict list \<times> exit"
where
  "fetch_loop rt srv [] consumer = ([], [], Completed)"
| "fetch_loop rt srv (message_id # rest) consumer =
     (case process_message rt srv message_id of
        (evs, None) \<Rightarrow>
          (case fetch_loop rt srv rest consumer of
             (evs', ys, ex) \<Rightarrow> (evs @ evs', ys, ex))
      | (evs, Some d) \<Rightarrow>
          if consumer = Some 1 then (evs, [d], Closed)
          else (case fetch_loop rt srv rest (map_option (\<lambda>n. n - 1) consumer) of
                  (evs', ys, ex) \<Rightarrow> (evs @ evs', d # ys, ex)))"

text \<open>
  From the start of the \<^verbatim>\<open>try\<close> block to the list of identifiers. A failing \<^verbatim>\<open>ID\<close>
  command is logged and passed over; a search result that is \<^verbatim>\<open>None\<close>, empty, or has an
  empty first line gives no identifiers.
\<close>

definition search_ids :: "email_client \<Rightarrow> imap_server \<Rightarrow> search_filter \<Rightarrow> bytes list io" where
  "search_ids self srv flt =
     then_do (call ClientTask (client_task srv)) (\<lambda>_.
     then_do (call WaitHello (wait_hello_from_server srv)) (\<lambda>_.
     then_do (call (Login (user_name (email_server self)) (password (email_server self))) (login srv)) (\<lambda>_.
     then_do (case id_command srv of
                None \<Rightarrow> ([Cmd (ClientId ''mcp-email-server'' ''1.0.0'')], Inr ())
              | Some e \<Rightarrow>
                  ([Cmd (ClientId ''mcp-email-server'' ''1.0.0''),
                    Log WARNING ''IMAP ID command failed: {e!s}''], Inr ())) (\<lambda>_.
     then_do (call (Select ''INBOX'') (select srv)) (\<lambda>_.
     let search_criteria = build_search_criteria flt in
     then_do (logger INFO ''Get: Search criteria: {search_criteria}'') (\<lambda>_.
     then_do ([Cmd (UidSearch search_criteria)], uid_search srv search_criteria) (\<lambda>messages.
       (case messages of
          None \<Rightarrow> ([Log WARNING ''No messages returned from search''], Inr [])
        | Some [] \<Rightarrow> ([Log WARNING ''No messages returned from search''], Inr [])
        | Some (m # ms) \<Rightarrow>
            if m = [] then ([Log WARNING ''No messages returned from search''], Inr [])
            else ([Log INFO ''Found {len(message_ids)} message IDs''],
                  Inr (bytes_split m))))))))))"

text \<open>The \<^verbatim>\<open>try\<close> block of \<^verbatim>\<open>get_emails_stream\<close>.\<close>

definition stream_body ::
  "email_client \<Rightarrow> py_runtime \<Rightarrow> imap_server \<Rightarrow> int \<Rightarrow> int \<Rightarrow> search_filter \<Rightarrow> string \<Rightarrow>
   nat option \<Rightarrow> event list \<times> email_dict list \<times> exit"
where
  "stream_body self rt srv page page_size flt order consumer =
     (case search_ids self srv flt of
        (evs, Inl e) \<Rightarrow> (evs, [], Raised e)
      | (evs, Inr message_ids) \<Rightarrow>
          (case fetch_loop rt srv (page_window order page page_size message_ids) consumer of
             (evs', ys, ex) \<Rightarrow> (evs @ evs', ys, ex)))"

text \<open>
  \<^verbatim>\<open>get_emails_stream\<close>, run against one session and one consumer: the events, the
  dictionaries yielded, and how the run ended. A generator that is closed before its
  first \<^verbatim>\<open>__anext__\<close> never runs its body. The session object is made before the \<^verbatim>\<open>try\<close>.
\<close>

definition get_emails_stream ::
  "email_client \<Rightarrow> py_runtime \<Rightarrow> imap_server \<Rightarrow> int \<Rightarrow> int \<Rightarrow> search_filter \<Rightarrow> string \<Rightarrow>
   nat option \<Rightarrow> event list \<times> email_dict list \<times> exit"
where
  "get_emails_stream self rt srv page page_size flt order consumer =
     (if consumer = Some 0 then ([], [], Closed)
      else (case create srv of
              Some e \<Rightarrow> ([Cmd (imap_class self)], [], Raised e)
            | None \<Rightarrow>
                (case stream_body self rt srv page page_size flt order consumer of
                   (evs, ys, ex) \<Rightarrow>
                     (Cmd (imap_class self) # evs @
                      finally_logout srv, ys, ex))))"

section \<open>The handler\<close>

text \<open>The fields of \<^verbatim>\<open>EmailData\<close> and of \<^verbatim>\<open>EmailPageResponse\<close>.\<close>

record EmailData =
  e_subject :: string
  e_sender :: string
  e_body :: string
  e_date :: datetime
  e_attachments :: "string list"
  e_is_read :: bool
  e_is_answered :: bool
  e_is_flagged :: bool
  e_is_deleted :: bool
  e_is_draft :: bool
  e_is_recent :: bool
  e_flags :: "string list"

record EmailPageResponse =
  r_page :: int
  r_page_size :: int
  r_before :: "datetime option"
  r_since :: "datetime option"
  r_subject :: "string option"
  r_body :: "string option"
  r_text :: "string option"
  r_emails :: "EmailData list"
  r_total :: int

text \<open>\<^verbatim>\<open>EmailData.from_email\<close>; the stream's dictionaries have every key it asks for.\<close>

definition from_email :: "email_dict \<Rightarrow> EmailData" where
  "from_email email =
     \<lparr>e_subject = k_subject email, e_sender = k_from email, e_body = k_body email,
      e_date = k_date email, e_attachments = k_attachments email,
      e_is_read = k_is_read email, e_is_answered = k_is_answered email,
      e_is_flagged = k_is_flagged email, e_is_deleted = k_is_deleted email,
      e_is_draft = k_is_draft email, e_is_recent = k_is_recent email,
      e_flags = k_flags email\<rparr>"

text \<open>
  \<^verbatim>\<open>ClassicEmailHandler.get_emails\<close>. It opens two sessions, one after the other: the
  stream's, which it reads to the end, and the count's.
\<close>

definition get_emails ::
  "email_client \<Rightarrow> py_runtime \<Rightarrow> imap_server \<Rightarrow> imap_server \<Rightarrow> int \<Rightarrow> int \<Rightarrow> search_filter \<Rightarrow>
   string \<Rightarrow> EmailPageResponse io"
where
  "get_emails incoming_client rt stream_session count_session page page_size flt order =
     (case get_emails_stream incoming_client rt stream_session page page_size flt order None of
        (evs, ys, Raised e) \<Rightarrow> (evs, Inl e)
      | (evs, ys, ex) \<Rightarrow>
          (let emails = map from_email ys in
           then_do (evs, Inr ()) (\<lambda>_.
           then_do (get_email_count incoming_client count_session flt) (\<lambda>total.
           returns \<lparr>r_page = page, r_page_size = page_size, r_before = before flt,
                    r_since = since flt, r_subject = subject flt, r_body = body flt,
                    r_text = text_contains flt, r_emails = emails, r_total = total\<rparr>))))"

section \<open>Sending\<close>

text \<open>
  What the client asks of the SMTP library. Entering the \<^verbatim>\<open>async with\<close> block connects,
  leaving it closes the connection, also when the block raises.
\<close>

datatype smtp_command =
  SmtpConnect string int bool bool | SmtpLogin string string |
  SendMessage mime_message "string list" | SmtpClose

record smtp_server =
  smtp_connect :: "py_exception option"
  smtp_login :: "py_exception option"
  send_message :: "mime_message \<Rightarrow> string list \<Rightarrow> py_exception option"

text \<open>\<^verbatim>\<open>msg[name] = value\<close> adds a header after the ones the message has.\<close>

definition set_header :: "mime_message \<Rightarrow> string \<Rightarrow> string \<Rightarrow> mime_message" where
  "set_header msg name v = msg\<lparr>headers := headers msg @ [(name, v)]\<rparr>"

text \<open>Python's truth test on an optional list: \<^verbatim>\<open>None\<close> and the empty list are false.\<close>

fun truthy_list :: "'a list option \<Rightarrow> 'a list" where
  "truthy_list None = []"
| "truthy_list (Some xs) = xs"

text \<open>Lines 328 to 335 of \<^verbatim>\<open>send_email\<close>: the message it composes.\<close>

definition compose_message ::
  "email_client \<Rightarrow> py_runtime \<Rightarrow> string list \<Rightarrow> string \<Rightarrow> string \<Rightarrow> string list option \<Rightarrow>
   mime_message"
where
  "compose_message self rt recipients subject' body' cc =
     (let msg = MIMEText rt body';
          msg = set_header msg ''Subject'' subject';
          msg = set_header msg ''From'' (sender self);
          msg = set_header msg ''To'' (join '', '' recipients)
      in if truthy_list cc \<noteq> [] then set_header msg ''Cc'' (join '', '' (truthy_list cc)) else msg)"

text \<open>Lines 349 to 353: the list of addresses handed to the SMTP session.\<close>

definition all_recipients ::
  "string list \<Rightarrow> string list option \<Rightarrow> string list option \<Rightarrow> string list"
where
  "all_recipients recipients cc bcc = recipients @ truthy_list cc @ truthy_list bcc"

text \<open>\<^verbatim>\<open>EmailClient.send_email\<close>: the commands sent, and whether it returns or raises.\<close>

definition send_email ::
  "email_client \<Rightarrow> py_runtime \<Rightarrow> smtp_server \<Rightarrow> string list \<Rightarrow> string \<Rightarrow> string \<Rightarrow>
   string list option \<Rightarrow> string list option \<Rightarrow> smtp_command list \<times> (py_exception + unit)"
where
  "send_email self rt smtp recipients subject' body' cc bcc =
     (let msg = compose_message self rt recipients subject' body' cc;
          connect = SmtpConnect (host (email_server self)) (port (email_server self))
                      (start_ssl (email_server self)) (use_ssl (email_server self));
          login' = SmtpLogin (user_name (email_server self)) (password (email_server self))
      in (case smtp_connect smtp of
            Some e \<Rightarrow> ([connect], Inl e)
          | None \<Rightarrow>
              (case smtp_login smtp of
                 Some e \<Rightarrow> ([connect, login', SmtpClose], Inl e)
               | None \<Rightarrow>
                   (let to_addrs = all_recipients recipients cc bcc in
                    ([connect, login', SendMessage msg to_addrs, SmtpClose],
                     (case send_message smtp msg to_addrs of
                        Some e \<Rightarrow> Inl e
                      | None \<Rightarrow> Inr ()))))))"

section \<open>Vocabulary of the statements\<close>

text \<open>The commands among the events, in order.\<close>

fun commands :: "event list \<Rightarrow> imap_command list" where
  "commands [] = []"
| "commands (Cmd c # evs) = c # commands evs"
| "commands (Log l m # evs) = commands evs"

text \<open>
  The criteria before the fall-back to \<^verbatim>\<open>ALL\<close> (the value of \<^verbatim>\<open>search_criteria\<close> at
  line 284), the keywords a criterion can start with, and a filter that gives no date, no
  flag and no text but the empty one.
\<close>

definition field_criteria :: "search_filter \<Rightarrow> string list" where
  "field_criteria f =
     add_flag_criteria
       (date_criterion ''BEFORE'' (before f) @
        date_criterion ''SINCE'' (since f) @
        text_criterion ''SUBJECT'' (subject f) @
        text_criterion ''BODY'' (body f) @
        text_criterion ''TEXT'' (text_contains f) @
        text_criterion ''FROM'' (from_address f) @
        text_criterion ''TO'' (to_address f))
       (is_unread f) (is_flagged f)"

definition criterion_keys :: "string list" where
  "criterion_keys =
     [''BEFORE'', ''SINCE'', ''SUBJECT'', ''BODY'', ''TEXT'', ''FROM'', ''TO'',
      ''UNSEEN'', ''SEEN'', ''FLAGGED'', ''UNFLAGGED'']"

definition nothing_given :: "search_filter \<Rightarrow> bool" where
  "nothing_given f =
     (before f = None \<and> since f = None \<and> truthy_str (subject f) = None \<and>
      truthy_str (body f) = None \<and> truthy_str (text_contains f) = None \<and>
      truthy_str (from_address f) = None \<and> truthy_str (to_address f) = None \<and>
      is_unread f = None \<and> is_flagged f = None)"

text \<open>\<open>v'\<close> is \<open>v\<close>, or \<open>v\<close> is the empty text and \<open>v'\<close> is the field left out.\<close>

definition blank_dropped :: "string option \<Rightarrow> string option \<Rightarrow> bool" where
  "blank_dropped v v' = (v' = v \<or> (v = Some [] \<and> v' = None))"

text \<open>
  An attempt with one request format succeeds when the response has fragments and one of
  them is content. The formats tried are those up to the first that succeeds, with it.
\<close>

definition attempt_ok :: "imap_server \<Rightarrow> string \<Rightarrow> string \<Rightarrow> bool" where
  "attempt_ok srv uid fetch_format =
     (case uid_fetch srv uid fetch_format of
        Inl e \<Rightarrow> False
      | Inr None \<Rightarrow> False
      | Inr (Some data) \<Rightarrow> has_content data)"

definition attempted :: "('a \<Rightarrow> bool) \<Rightarrow> 'a list \<Rightarrow> 'a list" where
  "attempted ok fs = takeWhile (\<lambda>f. \<not> ok f) fs @ take 1 (dropWhile (\<lambda>f. \<not> ok f) fs)"

text \<open>A fragment that the content test passes over whatever its length.\<close>

definition metadata_only :: "item \<Rightarrow> bool" where
  "metadata_only item' =
     (is_bytes item' \<and> bytes_in ''FETCH ('' (content item') \<and>
      \<not> bytes_in ''RFC822'' (content item') \<and> \<not> bytes_in ''BODY'' (content item'))"

definition falsy :: "'a list option \<Rightarrow> bool" where
  "falsy d = (d = None \<or> d = Some [])"

text \<open>What a failed attempt leaves in \<^verbatim>\<open>data\<close>, and what it writes to the log.\<close>

definition carried :: "py_exception + item list option \<Rightarrow> item list option" where
  "carried r = (case r of Inr (Some []) \<Rightarrow> Some [] | _ \<Rightarrow> None)"

definition failure_log :: "py_exception + item list option \<Rightarrow> event list" where
  "failure_log r =
     (case r of Inl e \<Rightarrow> [Log DEBUG ''Fetch format {fetch_format} failed: {e}''] | Inr d \<Rightarrow> [])"

text \<open>
  The list in the order asked for, and the elements of a list at the positions \<open>i\<close> with
  \<open>start \<le> i < end\<close>: the half-open slice as the interval of positions that it names.
\<close>

definition ordered :: "string \<Rightarrow> 'a list \<Rightarrow> 'a list" where
  "ordered order' ids = (if order' = ''desc'' then rev ids else ids)"

definition half_open_slice :: "'a list \<Rightarrow> int \<Rightarrow> int \<Rightarrow> 'a list" where
  "half_open_slice xs start end' =
     map (\<lambda>i. xs ! i) (filter (\<lambda>i. start \<le> int i \<and> int i < end') [0..<length xs])"

text \<open>Every fetch of a message raises, whatever the format.\<close>

definition fetch_always_raises :: "imap_server \<Rightarrow> string \<Rightarrow> bool" where
  "fetch_always_raises srv uid =
     list_all (\<lambda>f. case uid_fetch srv uid f of Inl e \<Rightarrow> True | Inr r \<Rightarrow> False) fetch_formats"

text \<open>
  The fragment that the second loop takes for the message, from the data the fetch of a
  message ends with.
\<close>

definition chosen_raw :: "py_runtime \<Rightarrow> imap_server \<Rightarrow> string \<Rightarrow> bytes option" where
  "chosen_raw rt srv uid =
     (case snd (try_formats srv uid fetch_formats None) of
        None \<Rightarrow> None
      | Some data \<Rightarrow> fst (snd (scan_response rt data None [])))"

text \<open>The messages handed to the SMTP session, and the address lists handed over with them.\<close>

fun sent_messages :: "smtp_command list \<Rightarrow> mime_message list" where
  "sent_messages [] = []"
| "sent_messages (SendMessage msg rs # cs) = msg # sent_messages cs"
| "sent_messages (c # cs) = sent_messages cs"

fun delivery_lists :: "smtp_command list \<Rightarrow> string list list" where
  "delivery_lists [] = []"
| "delivery_lists (SendMessage msg rs # cs) = rs # delivery_lists cs"
| "delivery_lists (c # cs) = delivery_lists cs"

text \<open>Decoding raises nothing but \<^verbatim>\<open>UnicodeDecodeError\<close>: every character set is known.\<close>

definition only_unicode_errors :: "py_runtime \<Rightarrow> bool" where
  "only_unicode_errors rt =
     (\<forall>bs charset e. bytes_decode rt bs charset = Inl e \<longrightarrow> e = UnicodeDecodeError)"

section \<open>Test doubles\<close>

text \<open>
  A client, a runtime and a session to run the model on. The runtime knows the ASCII
  codec under two names; it splits text at ASCII white space, parses no date, and its
  parser reads a message that starts with no header line (all of it is body, of type
  \<^verbatim>\<open>text/plain\<close>) and the one message \<open>unknown_charset_mail\<close>.
\<close>

definition test_account :: EmailServer where
  "test_account = \<lparr>user_name = ''user@example.org'', password = ''secret'',
     host = ''imap.example.org'', port = 993, use_ssl = True, start_ssl = False\<rparr>"

definition test_client :: email_client where
  "test_client = EmailClient test_account None"

definition ascii_decode :: "bytes \<Rightarrow> py_exception + string" where
  "ascii_decode bs =
     (if list_all (\<lambda>c. (of_char c :: nat) < 128) bs then Inr bs else Inl UnicodeDecodeError)"

definition unknown_charset_mail :: bytes where
  "unknown_charset_mail =
     ''Content-Type: text/plain; charset=x-unknown'' @
     [CHR 0x0D, CHR 0x0A, CHR 0x0D, CHR 0x0A] @ ''hello''"

definition body_only :: "bytes \<Rightarrow> email_message" where
  "body_only raw =
     \<lparr>subject_header = None, from_header = None, date_header = None, is_multipart = False,
      root = \<lparr>content_type = ''text/plain'', content_disposition = None, filename = None,
               payload = Some raw, charset_param = None\<rparr>,
      subparts = []\<rparr>"

definition test_parsebytes :: "bytes \<Rightarrow> email_message" where
  "test_parsebytes raw =
     (if raw = unknown_charset_mail
      then \<lparr>subject_header = None, from_header = None, date_header = None,
             is_multipart = False,
             root = \<lparr>content_type = ''text/plain'', content_disposition = None,
                      filename = None, payload = Some ''hello'',
                      charset_param = Some ''x-unknown''\<rparr>,
             subparts = []\<rparr>
      else body_only raw)"

definition test_clock :: datetime where
  "test_clock = \<lparr>year = 2024, month = 1, day = 1, hour = 12, minute = 0, second = 0\<rparr>"

definition test_runtime :: py_runtime where
  "test_runtime =
     \<lparr>codecs = (\<lambda>name. if name = ''ascii'' \<or> name = ''us-ascii'' then Some ascii_decode else None),
      str_split = bytes_split,
      parsebytes = test_parsebytes,
      parsedate_tz = (\<lambda>s. Inr None),
      fromtimestamp = (\<lambda>t. Inl (OtherError ''not a timestamp'')),
      now = test_clock,
      MIMEText = (\<lambda>body'.
        \<lparr>headers = [(''Content-Type'', ''text/plain; charset=us-ascii''),
                    (''MIME-Version'', ''1.0''), (''Content-Transfer-Encoding'', ''7bit'')],
         text_payload = body'\<rparr>)\<rparr>"

text \<open>
  The session finds the messages 1, 2 and 3. Every fetch of message 2 raises. For the
  others the two \<^verbatim>\<open>PEEK\<close> formats return a line of flags only and \<^verbatim>\<open>(BODY[] FLAGS)\<close>
  returns the message, 120 times the letter \<open>a\<close>, between two protocol lines.
\<close>

definition test_mail :: bytes where
  "test_mail = replicate 120 (CHR ''a'')"

definition flags_line :: item where
  "flags_line = Bytes (''1 FETCH (UID 1 FLAGS ('' @ system_flag ''Seen'' @ ''))'')"

definition test_response :: "item list" where
  "test_response =
     [Bytes (''1 FETCH (UID 1 FLAGS ('' @ system_flag ''Seen'' @ '') BODY[] {120}''),
      ByteArray test_mail, Bytes '')'']"

definition test_server :: imap_server where
  "test_server =
     \<lparr>create = None, client_task = None, wait_hello_from_server = None, login = None,
      id_command = None, select = None,
      uid_search = (\<lambda>criteria. Inr (Some [''1 2 3'', ''Search completed''])),
      uid_fetch = (\<lambda>uid fetch_format.
        if uid = ''2'' then Inl (OtherError ''connection reset'')
        else if fetch_format = ''(BODY[] FLAGS)'' then Inr (Some test_response)
        else if fetch_format = ''(RFC822 FLAGS)'' then Inr (Some test_response)
        else Inr (Some [flags_line])),
      logout = None\<rparr>"

text \<open>The dictionary the stream yields for message 1 and for message 3 of the session.\<close>

definition test_dict :: email_dict where
  "test_dict =
     \<lparr>k_subject = [], k_from = [], k_body = test_mail, k_date = test_clock,
      k_attachments = [], k_flags = [system_flag ''Seen''], k_is_read = True,
      k_is_answered = False, k_is_flagged = False, k_is_deleted = False,
      k_is_draft = False, k_is_recent = False\<rparr>"

text \<open>Twenty-five identifiers, as a search returns them: ascending.\<close>

definition ids25 :: "bytes list" where
  "ids25 = bytes_split ''1 2 3 4 5 6 7 8 9 10 11 12 13 14 15 16 17 18 19 20 21 22 23 24 25''"

text \<open>A session that rejects the login and fails to log out.\<close>

definition broken_server :: imap_server where
  "broken_server = test_server\<lparr>login := Some (OtherError ''rejected''),
     logout := Some (OtherError ''not connected'')\<rparr>"

text \<open>An SMTP session that accepts everything.\<close>

definition test_smtp :: smtp_server where
  "test_smtp = \<lparr>smtp_connect = None, smtp_login = None, send_message = (\<lambda>msg rs. None)\<rparr>"

section \<open>Properties of the search criteria\<close>

lemma build_search_criteria_eq:
  "build_search_criteria f = (if field_criteria f = [] then [''ALL''] else field_criteria f)"
  by (simp add: build_search_criteria_def field_criteria_def Let_def)

lemma add_flag_criteria_Nil:
  "add_flag_criteria cs u fl = [] \<longleftrightarrow> cs = [] \<and> u = None \<and> fl = None"
  by (auto simp: add_flag_criteria_def Let_def split: option.splits bool.splits)

lemma date_criterion_Nil: "date_criterion k d = [] \<longleftrightarrow> d = None"
  by (simp add: date_criterion_def split: option.splits)

lemma text_criterion_Nil: "text_criterion k v = [] \<longleftrightarrow> truthy_str v = None"
  by (simp add: text_criterion_def split: option.splits)

lemma field_criteria_Nil: "field_criteria f = [] \<longleftrightarrow> nothing_given f"
  by (simp add: field_criteria_def nothing_given_def add_flag_criteria_Nil
      date_criterion_Nil text_criterion_Nil)

lemma hd_add_flag_criteria:
  "add_flag_criteria cs u fl \<noteq> [] \<Longrightarrow>
   hd (add_flag_criteria cs u fl) = (if cs \<noteq> [] then hd cs else hd (add_flag_criteria [] u fl))"
  by (auto simp: add_flag_criteria_def Let_def split: option.splits bool.splits)

lemma hd_field_criteria: "field_criteria f \<noteq> [] \<Longrightarrow> hd (field_criteria f) \<in> set criterion_keys"
  unfolding field_criteria_def
  apply (simp add: hd_add_flag_criteria hd_append date_criterion_Nil text_criterion_Nil)
  apply (auto simp: criterion_keys_def date_criterion_def text_criterion_def
      add_flag_criteria_def Let_def split: option.splits bool.splits)
  done

lemma text_criterion_blank: "blank_dropped v v' \<Longrightarrow> text_criterion k v' = text_criterion k v"
  by (auto simp: blank_dropped_def text_criterion_def)

text \<open>
  C8, as amended. A filter that gives no date and no flag, and whose text fields are
  left out or empty, yields the single token \<^verbatim>\<open>ALL\<close>. Every other filter yields its
  field criteria: a list that is not the match-all list and starts with the keyword of
  a field, so the match-all fall-back is not taken.
\<close>

theorem build_search_criteria_match_all:
  "(nothing_given f \<longrightarrow> build_search_criteria f = [''ALL'']) \<and>
   (\<not> nothing_given f \<longrightarrow>
      build_search_criteria f = field_criteria f \<and>
      build_search_criteria f \<noteq> [''ALL''] \<and>
      hd (build_search_criteria f) \<in> set criterion_keys)"
proof (cases "nothing_given f")
  case True
  then show ?thesis
    by (simp add: build_search_criteria_eq field_criteria_Nil)
next
  case False
  then have ne: "field_criteria f \<noteq> []"
    by (simp add: field_criteria_Nil)
  then have key: "hd (field_criteria f) \<in> set criterion_keys"
    by (rule hd_field_criteria)
  have "field_criteria f \<noteq> [''ALL'']"
  proof
    assume "field_criteria f = [''ALL'']"
    with key show False by (simp add: criterion_keys_def)
  qed
  with False ne key show ?thesis
    by (simp add: build_search_criteria_eq)
qed

theorem build_search_criteria_match_all_witness:
  "nothing_given no_filter \<and> build_search_criteria no_filter = [''ALL''] \<and>
   \<not> nothing_given (no_filter\<lparr>subject := Some ''invoice'', is_unread := Some True\<rparr>) \<and>
   build_search_criteria (no_filter\<lparr>subject := Some ''invoice'', is_unread := Some True\<rparr>) =
     [''SUBJECT'', ''invoice'', ''UNSEEN'']"
  using build_search_criteria_match_all [of no_filter]
    build_search_criteria_match_all
      [of "no_filter\<lparr>subject := Some ''invoice'', is_unread := Some True\<rparr>"]
  by (simp add: nothing_given_def no_filter_def field_criteria_def add_flag_criteria_def
      date_criterion_def text_criterion_def)

text \<open>
  C8, as the claim states it, fails: a filter whose subject is set, to the empty text,
  yields the match-all token.
\<close>

theorem empty_subject_yields_match_all:
  "subject (no_filter\<lparr>subject := Some []\<rparr>) \<noteq> None \<and>
   build_search_criteria (no_filter\<lparr>subject := Some []\<rparr>) = [''ALL'']"
  by (simp add: build_search_criteria_def no_filter_def add_flag_criteria_def
      date_criterion_def text_criterion_def)

text \<open>
  C10. Leaving out any of the five text fields whose value is the empty text does not
  change the token sequence.
\<close>

theorem empty_text_field_as_absent:
  assumes "blank_dropped (subject f) s" and "blank_dropped (body f) b"
    and "blank_dropped (text_contains f) t" and "blank_dropped (from_address f) fa"
    and "blank_dropped (to_address f) ta"
  shows "build_search_criteria
           (f\<lparr>subject := s, body := b, text_contains := t, from_address := fa,
              to_address := ta\<rparr>) = build_search_criteria f"
  using assms by (simp add: build_search_criteria_def text_criterion_blank)

theorem empty_text_field_as_absent_witness:
  "build_search_criteria (no_filter\<lparr>subject := Some []\<rparr>) = build_search_criteria no_filter \<and>
   build_search_criteria (no_filter\<lparr>subject := Some []\<rparr>) = [''ALL''] \<and>
   build_search_criteria (no_filter\<lparr>body := Some ''x'', to_address := Some []\<rparr>) =
     build_search_criteria (no_filter\<lparr>body := Some ''x''\<rparr>)"
  using empty_text_field_as_absent [of "no_filter\<lparr>subject := Some []\<rparr>" None None None None None]
    empty_text_field_as_absent
      [of "no_filter\<lparr>body := Some ''x'', to_address := Some []\<rparr>" None "Some ''x''" None None None]
  by (simp add: blank_dropped_def no_filter_def build_search_criteria_def add_flag_criteria_def
      date_criterion_def text_criterion_def)

section \<open>Properties of the fetch of one message\<close>

lemma commands_append: "commands (xs @ ys) = commands xs @ commands ys"
  by (induction xs rule: commands.induct) simp_all

lemma has_content_iff:
  "has_content data \<longleftrightarrow> (\<exists>i \<in> set data. \<not> metadata_only i \<and> 100 < length (content i))"
  by (induction data) (auto simp: metadata_only_def)

lemma attempted_Cons: "attempted ok (f # fs) = (if ok f then [f] else f # attempted ok fs)"
  by (simp add: attempted_def)

lemma attempt_ok_simps:
  "uid_fetch srv uid f = Inl e \<Longrightarrow> attempt_ok srv uid f = False"
  "uid_fetch srv uid f = Inr None \<Longrightarrow> attempt_ok srv uid f = False"
  "uid_fetch srv uid f = Inr (Some data) \<Longrightarrow> attempt_ok srv uid f = has_content data"
  by (simp_all add: attempt_ok_def)

text \<open>One round of the loop over the formats.\<close>

lemma try_formats_step:
  "try_formats srv uid (f # fs) d =
     (if attempt_ok srv uid f
      then ([Cmd (UidFetch uid f)], (case uid_fetch srv uid f of Inr r \<Rightarrow> r | Inl e \<Rightarrow> None))
      else (Cmd (UidFetch uid f) # failure_log (uid_fetch srv uid f) @
              fst (try_formats srv uid fs (carried (uid_fetch srv uid f))),
            snd (try_formats srv uid fs (carried (uid_fetch srv uid f)))))"
proof (cases "uid_fetch srv uid f")
  case (Inl e)
  then show ?thesis
    by (simp add: attempt_ok_simps carried_def failure_log_def case_prod_unfold)
next
  case (Inr r)
  show ?thesis
  proof (cases r)
    case None
    with Inr show ?thesis
      by (simp add: attempt_ok_simps carried_def failure_log_def case_prod_unfold)
  next
    case (Some data)
    with Inr show ?thesis
      by (cases data)
        (simp_all add: attempt_ok_simps carried_def failure_log_def case_prod_unfold)
  qed
qed

lemma commands_failure_log: "commands (failure_log r) = []"
  by (simp add: failure_log_def split: sum.splits)

lemma falsy_carried: "falsy (carried r)"
  by (simp add: falsy_def carried_def split: sum.splits option.splits list.splits)

lemma try_formats_commands:
  "commands (fst (try_formats srv uid fs d)) =
   map (UidFetch uid) (attempted (attempt_ok srv uid) fs)"
proof (induction fs arbitrary: d)
  case Nil
  show ?case by (simp add: attempted_def)
next
  case (Cons f fs)
  show ?case
    unfolding try_formats_step attempted_Cons
    by (simp add: Cons.IH commands_append commands_failure_log)
qed

lemma try_formats_found:
  "find (attempt_ok srv uid) fs = Some f \<Longrightarrow>
   uid_fetch srv uid f = Inr (snd (try_formats srv uid fs d))"
proof (induction fs arbitrary: d)
  case Nil
  then show ?case by simp
next
  case (Cons g fs)
  show ?case
  proof (cases "attempt_ok srv uid g")
    case True
    with Cons.prems have "f = g" by simp
    with True show ?thesis
      unfolding try_formats_step
      by (cases "uid_fetch srv uid g") (simp_all add: attempt_ok_simps)
  next
    case False
    with Cons.prems have "find (attempt_ok srv uid) fs = Some f" by simp
    then have "uid_fetch srv uid f =
        Inr (snd (try_formats srv uid fs (carried (uid_fetch srv uid g))))"
      by (rule Cons.IH)
    with False show ?thesis
      unfolding try_formats_step by simp
  qed
qed

lemma try_formats_none:
  "find (attempt_ok srv uid) fs = None \<Longrightarrow> falsy d \<Longrightarrow>
   falsy (snd (try_formats srv uid fs d))"
proof (induction fs arbitrary: d)
  case Nil
  then show ?case by simp
next
  case (Cons g fs)
  from Cons.prems have no: "\<not> attempt_ok srv uid g"
    and rest: "find (attempt_ok srv uid) fs = None"
    by (auto split: if_splits)
  from rest falsy_carried
  have "falsy (snd (try_formats srv uid fs (carried (uid_fetch srv uid g))))"
    by (rule Cons.IH)
  with no show ?case
    unfolding try_formats_step by simp
qed

lemma process_message_all_fail:
  assumes "find (attempt_ok srv uid) fetch_formats = None"
    and "bytes_decode rt message_id ''utf-8'' = Inr uid"
  shows "process_message rt srv message_id =
     (fst (try_formats srv uid fetch_formats None) @
      [Log ERROR ''Failed to fetch UID {message_id_str} with any format''], None)"
proof -
  have "falsy (snd (try_formats srv uid fetch_formats None))"
    using assms(1) by (rule try_formats_none) (simp add: falsy_def)
  then show ?thesis
    using assms(2)
    by (cases "try_formats srv uid fetch_formats None") (auto simp: process_message_def falsy_def)
qed

text \<open>
  C2. The four request formats are tried in their fixed order, the two \<^verbatim>\<open>PEEK\<close> forms
  first: the fetch commands sent for a message are those for the formats up to the first
  whose response has content, and none after it; the response of that format is the data
  the message is read from. A response has content when one of its fragments is longer
  than 100 bytes and is not a \<^verbatim>\<open>bytes\<close> line with \<^verbatim>\<open>FETCH (\<close> that names neither
  \<^verbatim>\<open>RFC822\<close> nor \<^verbatim>\<open>BODY\<close>; any other response, as one of a line of flags only, fails
  its attempt. When no format succeeds the message is skipped with an error in the log:
  no dictionary and no exception.
\<close>

theorem fetch_fallback:
  "fetch_formats =
     [''(BODY.PEEK[] FLAGS)'', ''BODY.PEEK[] FLAGS'', ''(BODY[] FLAGS)'', ''(RFC822 FLAGS)''] \<and>
   commands (fst (try_formats srv uid fetch_formats None)) =
     map (UidFetch uid) (attempted (attempt_ok srv uid) fetch_formats) \<and>
   (\<forall>f. find (attempt_ok srv uid) fetch_formats = Some f \<longrightarrow>
      uid_fetch srv uid f = Inr (snd (try_formats srv uid fetch_formats None)) \<and>
      \<not> falsy (snd (try_formats srv uid fetch_formats None))) \<and>
   (\<forall>f. attempt_ok srv uid f \<longleftrightarrow>
      (\<exists>data. uid_fetch srv uid f = Inr (Some data) \<and>
         (\<exists>i \<in> set data. \<not> metadata_only i \<and> 100 < length (content i)))) \<and>
   (find (attempt_ok srv uid) fetch_formats = None \<and>
    bytes_decode rt message_id ''utf-8'' = Inr uid \<longrightarrow>
      process_message rt srv message_id =
        (fst (try_formats srv uid fetch_formats None) @
         [Log ERROR ''Failed to fetch UID {message_id_str} with any format''], None))"
proof (intro conjI allI impI)
  show "fetch_formats =
     [''(BODY.PEEK[] FLAGS)'', ''BODY.PEEK[] FLAGS'', ''(BODY[] FLAGS)'', ''(RFC822 FLAGS)'']"
    by (simp add: fetch_formats_def)
next
  show "commands (fst (try_formats srv uid fetch_formats None)) =
     map (UidFetch uid) (attempted (attempt_ok srv uid) fetch_formats)"
    by (rule try_formats_commands)
next
  fix f
  assume found: "find (attempt_ok srv uid) fetch_formats = Some f"
  then show eq: "uid_fetch srv uid f = Inr (snd (try_formats srv uid fetch_formats None))"
    by (rule try_formats_found)
  from found have "attempt_ok srv uid f"
    by (auto simp: find_Some_iff)
  with eq show "\<not> falsy (snd (try_formats srv uid fetch_formats None))"
    by (cases "snd (try_formats srv uid fetch_formats None)")
      (auto simp: falsy_def attempt_ok_def)
next
  fix f
  show "attempt_ok srv uid f \<longleftrightarrow>
      (\<exists>data. uid_fetch srv uid f = Inr (Some data) \<and>
         (\<exists>i \<in> set data. \<not> metadata_only i \<and> 100 < length (content i)))"
    by (cases "uid_fetch srv uid f")
      (auto simp: attempt_ok_def has_content_iff split: option.splits)
next
  assume "find (attempt_ok srv uid) fetch_formats = None \<and>
    bytes_decode rt message_id ''utf-8'' = Inr uid"
  then show "process_message rt srv message_id =
        (fst (try_formats srv uid fetch_formats None) @
         [Log ERROR ''Failed to fetch UID {message_id_str} with any format''], None)"
    by (simp add: process_message_all_fail)
qed

theorem fetch_fallback_witness:
  "commands (fst (try_formats test_server ''1'' fetch_formats None)) =
     [UidFetch ''1'' ''(BODY.PEEK[] FLAGS)'', UidFetch ''1'' ''BODY.PEEK[] FLAGS'',
      UidFetch ''1'' ''(BODY[] FLAGS)''] \<and>
   snd (try_formats test_server ''1'' fetch_formats None) = Some test_response \<and>
   attempt_ok test_server ''1'' ''(RFC822 FLAGS)'' \<and>
   \<not> attempt_ok test_server ''1'' ''(BODY.PEEK[] FLAGS)'' \<and>
   process_message test_runtime test_server ''2'' =
     ([Cmd (UidFetch ''2'' ''(BODY.PEEK[] FLAGS)''),
       Log DEBUG ''Fetch format {fetch_format} failed: {e}'',
       Cmd (UidFetch ''2'' ''BODY.PEEK[] FLAGS''),
       Log DEBUG ''Fetch format {fetch_format} failed: {e}'',
       Cmd (UidFetch ''2'' ''(BODY[] FLAGS)''),
       Log DEBUG ''Fetch format {fetch_format} failed: {e}'',
       Cmd (UidFetch ''2'' ''(RFC822 FLAGS)''),
       Log DEBUG ''Fetch format {fetch_format} failed: {e}'',
       Log ERROR ''Failed to fetch UID {message_id_str} with any format''], None)"
proof -
  note one = fetch_fallback [of test_server "''1''" test_runtime "''1''"]
  note two = fetch_fallback [of test_server "''2''" test_runtime "''2''"]
  have tried: "attempted (attempt_ok test_server ''1'') fetch_formats =
      [''(BODY.PEEK[] FLAGS)'', ''BODY.PEEK[] FLAGS'', ''(BODY[] FLAGS)'']"
    by code_simp
  have found: "find (attempt_ok test_server ''1'') fetch_formats = Some ''(BODY[] FLAGS)''"
    by code_simp
  have response: "uid_fetch test_server ''1'' ''(BODY[] FLAGS)'' = Inr (Some test_response)"
    by code_simp
  have flags_only: "uid_fetch test_server ''1'' ''(BODY.PEEK[] FLAGS)'' = Inr (Some [flags_line])"
    "metadata_only flags_line"
    by code_simp+
  have fourth: "attempt_ok test_server ''1'' ''(RFC822 FLAGS)''"
    by code_simp
  have none: "find (attempt_ok test_server ''2'') fetch_formats = None"
    "bytes_decode test_runtime ''2'' ''utf-8'' = Inr ''2''"
    by code_simp+
  have events: "fst (try_formats test_server ''2'' fetch_formats None) =
      [Cmd (UidFetch ''2'' ''(BODY.PEEK[] FLAGS)''),
       Log DEBUG ''Fetch format {fetch_format} failed: {e}'',
       Cmd (UidFetch ''2'' ''BODY.PEEK[] FLAGS''),
       Log DEBUG ''Fetch format {fetch_format} failed: {e}'',
       Cmd (UidFetch ''2'' ''(BODY[] FLAGS)''),
       Log DEBUG ''Fetch format {fetch_format} failed: {e}'',
       Cmd (UidFetch ''2'' ''(RFC822 FLAGS)''),
       Log DEBUG ''Fetch format {fetch_format} failed: {e}'']"
    by code_simp
  from one tried have c1: "commands (fst (try_formats test_server ''1'' fetch_formats None)) =
     [UidFetch ''1'' ''(BODY.PEEK[] FLAGS)'', UidFetch ''1'' ''BODY.PEEK[] FLAGS'',
      UidFetch ''1'' ''(BODY[] FLAGS)'']"
    by simp
  from one found response have c2: "snd (try_formats test_server ''1'' fetch_formats None) = Some test_response"
    by simp
  from one flags_only have c3: "\<not> attempt_ok test_server ''1'' ''(BODY.PEEK[] FLAGS)''"
    by simp
  from two none events have c4: "process_message test_runtime test_server ''2'' =
     ([Cmd (UidFetch ''2'' ''(BODY.PEEK[] FLAGS)''),
       Log DEBUG ''Fetch format {fetch_format} failed: {e}'',
       Cmd (UidFetch ''2'' ''BODY.PEEK[] FLAGS''),
       Log DEBUG ''Fetch format {fetch_format} failed: {e}'',
       Cmd (UidFetch ''2'' ''(BODY[] FLAGS)''),
       Log DEBUG ''Fetch format {fetch_format} failed: {e}'',
       Cmd (UidFetch ''2'' ''(RFC822 FLAGS)''),
       Log DEBUG ''Fetch format {fetch_format} failed: {e}'',
       Log ERROR ''Failed to fetch UID {message_id_str} with any format''], None)"
    by simp
  from c1 c2 fourth c3 c4 show ?thesis by simp
qed

section \<open>Properties of the page\<close>

lemma py_slice_nonneg:
  assumes "0 \<le> s" and "s \<le> e"
  shows "py_slice xs s e = take (nat (e - s)) (drop (nat s) xs)"
proof (cases "s \<le> int (length xs)")
  case inside: True
  show ?thesis
  proof (cases "e \<le> int (length xs)")
    case True
    with assms inside show ?thesis
      by (simp add: py_slice_def slice_index_def Let_def min_def)
  next
    case False
    with assms inside have "py_slice xs s e = drop (nat s) xs"
      by (simp add: py_slice_def slice_index_def Let_def min_def)
    moreover have "length (drop (nat s) xs) \<le> nat (e - s)"
      using False assms inside by (simp add: nat_le_iff of_nat_diff)
    ultimately show ?thesis by simp
  qed
next
  case False
  with assms show ?thesis
    by (simp add: py_slice_def slice_index_def Let_def min_def)
qed

lemma py_slice_to_zero: "py_slice xs s 0 = []"
  by (simp add: py_slice_def slice_index_def Let_def)

lemma filter_interval_upt:
  "filter (\<lambda>i. a \<le> i \<and> i < b) [0..<n] = [a..<min b n]"
proof (induction n)
  case 0
  show ?case by simp
next
  case (Suc n)
  show ?case
  proof (cases "a \<le> n \<and> n < b")
    case True
    then have "min b (Suc n) = Suc n" and "min b n = n"
      by auto
    with True have "[a..<min b (Suc n)] = [a..<min b n] @ [n]"
      by simp
    with True Suc show ?thesis by simp
  next
    case False
    then have "[a..<min b (Suc n)] = [a..<min b n]"
      by (auto simp: min_def)
    with False Suc show ?thesis by auto
  qed
qed

lemma take_drop_nths:
  "take k (drop a xs) = map (\<lambda>i. xs ! i) [a..<min (a + k) (length xs)]"
proof -
  have "take k (drop a (map (\<lambda>i. xs ! i) [0..<length xs])) =
        map (\<lambda>i. xs ! i) (take k (drop a [0..<length xs]))"
    by (simp add: take_map drop_map)
  also have "take k (drop a [0..<length xs]) = [a..<min (a + k) (length xs)]"
    by (cases "a + k \<le> length xs") (simp_all add: min_def)
  finally show ?thesis by (simp add: map_nth)
qed

lemma half_open_slice_nonneg:
  assumes "0 \<le> s" and "s \<le> e"
  shows "half_open_slice xs s e = take (nat (e - s)) (drop (nat s) xs)"
proof -
  from assms have "(\<lambda>i. s \<le> int i \<and> int i < e) = (\<lambda>i. nat s \<le> i \<and> i < nat e)"
    by (auto simp: fun_eq_iff)
  then have "half_open_slice xs s e = map (\<lambda>i. xs ! i) [nat s..<min (nat e) (length xs)]"
    by (simp add: half_open_slice_def filter_interval_upt)
  moreover from assms have "nat s + nat (e - s) = nat e" by simp
  ultimately show ?thesis
    by (simp add: take_drop_nths)
qed

lemma half_open_slice_to_zero: "half_open_slice xs s 0 = []"
  by (simp add: half_open_slice_def)

lemma page_window_half_open:
  assumes "0 \<le> page" and "0 \<le> page_size"
  shows "page_window order' page page_size ids =
     half_open_slice (ordered order' ids) ((page - 1) * page_size) (page * page_size)"
proof (cases "page = 0")
  case True
  then show ?thesis
    by (simp add: page_window_def Let_def py_slice_to_zero half_open_slice_to_zero)
next
  case False
  with assms have "0 \<le> (page - 1) * page_size" by simp
  moreover from assms have "(page - 1) * page_size \<le> (page - 1) * page_size + page_size" by simp
  ultimately have "py_slice (ordered order' ids) ((page - 1) * page_size) ((page - 1) * page_size + page_size) =
     half_open_slice (ordered order' ids) ((page - 1) * page_size) ((page - 1) * page_size + page_size)"
    by (simp add: py_slice_nonneg half_open_slice_nonneg)
  moreover have "(page - 1) * page_size + page_size = page * page_size"
    by (simp add: algebra_simps)
  ultimately show ?thesis
    by (simp add: page_window_def ordered_def Let_def)
qed

lemma half_open_slice_past_end:
  "int (length xs) \<le> s \<Longrightarrow> half_open_slice xs s e = []"
  by (auto simp: half_open_slice_def filter_empty_conv)

section \<open>Properties of the stream\<close>

lemma fetch_loop_all:
  "fetch_loop rt srv ids None =
     (concat (map (\<lambda>m. fst (process_message rt srv m)) ids),
      List.map_filter (\<lambda>m. snd (process_message rt srv m)) ids, Completed)"
proof (induction ids)
  case Nil
  show ?case by (simp add: map_filter_simps)
next
  case (Cons m ids)
  obtain evs r where pm: "process_message rt srv m = (evs, r)"
    by (cases "process_message rt srv m")
  show ?case
    using Cons.IH pm by (cases r) (simp_all add: map_filter_simps)
qed

lemma stream_all:
  assumes "create srv = None" and "search_ids self srv flt = (evs, Inr ids)"
  shows "get_emails_stream self rt srv page page_size flt order' None =
     (Cmd (imap_class self) # evs @
        concat (map (\<lambda>m. fst (process_message rt srv m)) (page_window order' page page_size ids)) @
        finally_logout srv,
      List.map_filter (\<lambda>m. snd (process_message rt srv m)) (page_window order' page page_size ids),
      Completed)"
  using assms by (simp add: get_emails_stream_def stream_body_def fetch_loop_all)

lemma fetch_always_raises_none:
  "fetch_always_raises srv uid \<Longrightarrow> find (attempt_ok srv uid) fetch_formats = None"
  by (auto simp: fetch_always_raises_def find_None_iff list_all_iff attempt_ok_def
      split: sum.splits)

lemma process_message_fetch_raises:
  assumes "bytes_decode rt m ''utf-8'' = Inr uid" and "fetch_always_raises srv uid"
  shows "snd (process_message rt srv m) = None"
  using process_message_all_fail [OF fetch_always_raises_none [OF assms(2)] assms(1)]
  by simp

lemma process_message_id_raises:
  "bytes_decode rt m ''utf-8'' = Inl e \<Longrightarrow> snd (process_message rt srv m) = None"
  by (simp add: process_message_def)

lemma process_message_parse_raises:
  assumes "bytes_decode rt m ''utf-8'' = Inr uid" and "chosen_raw rt srv uid = Some raw"
    and "parse_email_data rt raw = Inl e"
  shows "snd (process_message rt srv m) = None"
  using assms
  by (auto simp: process_message_def chosen_raw_def split: prod.splits option.splits list.splits)

text \<open>
  C1. When the session is open and the search has returned, a stream read to its end
  yields, for the identifiers of the page in their order, the dictionary of each
  identifier that yields one, and ends without an exception: what one identifier
  contributes does not depend on the others. An identifier that does not decode, one for
  which every fetch raises, and one whose message the parser raises on contribute
  nothing. So of three identifiers of which the second fails the stream yields the
  dictionaries of the first and the third, in that order.
\<close>

theorem stream_skips_failed_message:
  "(create srv = None \<and> search_ids self srv flt = (evs, Inr ids) \<longrightarrow>
      snd (get_emails_stream self rt srv page page_size flt order' None) =
        (List.map_filter (\<lambda>m. snd (process_message rt srv m))
           (page_window order' page page_size ids), Completed)) \<and>
   (bytes_decode rt m ''utf-8'' = Inl e \<longrightarrow> snd (process_message rt srv m) = None) \<and>
   (bytes_decode rt m ''utf-8'' = Inr uid \<and> fetch_always_raises srv uid \<longrightarrow>
      snd (process_message rt srv m) = None) \<and>
   (bytes_decode rt m ''utf-8'' = Inr uid \<and> chosen_raw rt srv uid = Some raw \<and>
    parse_email_data rt raw = Inl e \<longrightarrow> snd (process_message rt srv m) = None) \<and>
   (create srv = None \<and> search_ids self srv flt = (evs, Inr ids) \<and>
    page_window order' page page_size ids = [a, m, c] \<and>
    snd (process_message rt srv m) = None \<and>
    snd (process_message rt srv a) = Some da \<and> snd (process_message rt srv c) = Some dc \<longrightarrow>
      snd (get_emails_stream self rt srv page page_size flt order' None) = ([da, dc], Completed))"
  by (auto simp: stream_all map_filter_simps process_message_id_raises
      process_message_fetch_raises process_message_parse_raises)

theorem stream_skips_failed_message_witness:
  "create test_server = None \<and>
   search_ids test_client test_server no_filter =
     ([Cmd ClientTask, Cmd WaitHello, Cmd (Login ''user@example.org'' ''secret''),
       Cmd (ClientId ''mcp-email-server'' ''1.0.0''), Cmd (Select ''INBOX''),
       Log INFO ''Get: Search criteria: {search_criteria}'', Cmd (UidSearch [''ALL'']),
       Log INFO ''Found {len(message_ids)} message IDs''], Inr [''1'', ''2'', ''3'']) \<and>
   page_window ''asc'' 1 10 [''1'', ''2'', ''3''] = [''1'', ''2'', ''3''] \<and>
   fetch_always_raises test_server ''2'' \<and>
   snd (get_emails_stream test_client test_runtime test_server 1 10 no_filter ''asc'' None) =
     ([test_dict, test_dict], Completed)"
proof -
  have c: "create test_server = None"
    by code_simp
  have s: "search_ids test_client test_server no_filter =
     ([Cmd ClientTask, Cmd WaitHello, Cmd (Login ''user@example.org'' ''secret''),
       Cmd (ClientId ''mcp-email-server'' ''1.0.0''), Cmd (Select ''INBOX''),
       Log INFO ''Get: Search criteria: {search_criteria}'', Cmd (UidSearch [''ALL'']),
       Log INFO ''Found {len(message_ids)} message IDs''], Inr [''1'', ''2'', ''3''])"
    by code_simp
  have w: "page_window ''asc'' 1 10 [''1'', ''2'', ''3''] = [''1'', ''2'', ''3'']"
    by code_simp
  have d: "bytes_decode test_runtime ''2'' ''utf-8'' = Inr ''2''"
    by code_simp
  have f: "fetch_always_raises test_server ''2''"
    by code_simp
  have a: "snd (process_message test_runtime test_server ''1'') = Some test_dict"
    by code_simp
  have b: "snd (process_message test_runtime test_server ''3'') = Some test_dict"
    by code_simp
  note inst = stream_skips_failed_message [where srv = test_server and self = test_client
      and rt = test_runtime and flt = no_filter and ids = "[''1'', ''2'', ''3'']"
      and page = 1 and page_size = 10 and order' = "''asc''" and m = "''2''" and uid = "''2''"
      and a = "''1''" and c = "''3''" and da = test_dict and dc = test_dict]
  from inst d f have skipped: "snd (process_message test_runtime test_server ''2'') = None"
    by blast
  from inst c s w skipped a b
  have "snd (get_emails_stream test_client test_runtime test_server 1 10 no_filter ''asc'' None) =
     ([test_dict, test_dict], Completed)"
    by blast
  with c s w f show ?thesis by simp
qed

text \<open>
  C4, as amended. For a page number and a page size that are not negative, the loop runs
  over the identifiers at the positions from \<open>(page - 1) * page_size\<close> up to but not
  including \<open>page * page_size\<close> of the list of identifiers, reversed first when the order is
  \<^verbatim>\<open>"desc"\<close>: the stream fetches those and yields from those, nothing is validated, and a
  page past the end of the list is empty, not an error.
\<close>

theorem page_is_half_open_slice:
  assumes "0 \<le> page" and "0 \<le> page_size"
  shows "page_window order' page page_size ids =
           half_open_slice (ordered order' ids) ((page - 1) * page_size) (page * page_size) \<and>
         (create srv = None \<and> search_ids self srv flt = (evs, Inr ids) \<longrightarrow>
            get_emails_stream self rt srv page page_size flt order' None =
              (Cmd (imap_class self) # evs @
                 concat (map (\<lambda>m. fst (process_message rt srv m))
                   (half_open_slice (ordered order' ids) ((page - 1) * page_size)
                      (page * page_size))) @
                 finally_logout srv,
               List.map_filter (\<lambda>m. snd (process_message rt srv m))
                 (half_open_slice (ordered order' ids) ((page - 1) * page_size)
                    (page * page_size)),
               Completed)) \<and>
         (int (length ids) \<le> (page - 1) * page_size \<longrightarrow>
            page_window order' page page_size ids = [])"
proof -
  have window: "page_window order' page page_size ids =
      half_open_slice (ordered order' ids) ((page - 1) * page_size) (page * page_size)"
    using assms by (rule page_window_half_open)
  have "half_open_slice (ordered order' ids) ((page - 1) * page_size) (page * page_size) = []"
    if "int (length ids) \<le> (page - 1) * page_size"
    using that by (intro half_open_slice_past_end) (simp add: ordered_def)
  with window show ?thesis
    by (auto simp: stream_all)
qed

theorem page_is_half_open_slice_witness:
  "page_window ''desc'' 2 10 ids25 =
     bytes_split ''15 14 13 12 11 10 9 8 7 6'' \<and>
   take 10 (drop 10 (rev ids25)) = bytes_split ''15 14 13 12 11 10 9 8 7 6'' \<and>
   snd (get_emails_stream test_client test_runtime test_server 1 2 no_filter ''desc'' None) =
     ([test_dict], Completed) \<and>
   snd (get_emails_stream test_client test_runtime test_server 3 2 no_filter ''desc'' None) =
     ([], Completed)"
proof -
  have big: "half_open_slice (ordered ''desc'' ids25) ((2 - 1) * 10) (2 * 10) =
      bytes_split ''15 14 13 12 11 10 9 8 7 6''"
    by code_simp
  have same: "take 10 (drop 10 (rev ids25)) = bytes_split ''15 14 13 12 11 10 9 8 7 6''"
    by code_simp
  have c: "create test_server = None"
    by code_simp
  have s: "search_ids test_client test_server no_filter =
     ([Cmd ClientTask, Cmd WaitHello, Cmd (Login ''user@example.org'' ''secret''),
       Cmd (ClientId ''mcp-email-server'' ''1.0.0''), Cmd (Select ''INBOX''),
       Log INFO ''Get: Search criteria: {search_criteria}'', Cmd (UidSearch [''ALL'']),
       Log INFO ''Found {len(message_ids)} message IDs''], Inr [''1'', ''2'', ''3''])"
    by code_simp
  have first: "List.map_filter (\<lambda>m. snd (process_message test_runtime test_server m))
      (half_open_slice (ordered ''desc'' [''1'', ''2'', ''3'']) ((1 - 1) * 2) (1 * 2)) = [test_dict]"
    by code_simp
  have third: "List.map_filter (\<lambda>m. snd (process_message test_runtime test_server m))
      (half_open_slice (ordered ''desc'' [''1'', ''2'', ''3'']) ((3 - 1) * 2) (3 * 2)) = []"
    by code_simp
  from page_is_half_open_slice [where page = 2 and page_size = 10 and order' = "''desc''"
      and ids = ids25] big
  have one: "page_window ''desc'' 2 10 ids25 = bytes_split ''15 14 13 12 11 10 9 8 7 6''"
    by simp
  from page_is_half_open_slice [where page = 1 and page_size = 2 and srv = test_server
      and self = test_client and flt = no_filter and ids = "[''1'', ''2'', ''3'']"
      and rt = test_runtime and order' = "''desc''"] c s first
  have two: "snd (get_emails_stream test_client test_runtime test_server 1 2 no_filter ''desc'' None) =
     ([test_dict], Completed)"
    by simp
  from page_is_half_open_slice [where page = 3 and page_size = 2 and srv = test_server
      and self = test_client and flt = no_filter and ids = "[''1'', ''2'', ''3'']"
      and rt = test_runtime and order' = "''desc''"] c s third
  have three: "snd (get_emails_stream test_client test_runtime test_server 3 2 no_filter ''desc'' None) =
     ([], Completed)"
    by simp
  from one same two three show ?thesis by simp
qed

text \<open>
  C4, as the claim states it, fails for a negative page number: Python counts a negative
  bound of a slice from the end of the list, so page \<open>-2\<close> of size 1 over three
  identifiers is the first identifier, where the interval of positions is empty, and the
  stream yields its message.
\<close>

theorem negative_page_yields_message:
  "page_window ''asc'' (- 2) 1 [''1'', ''2'', ''3''] = [''1''] \<and>
   half_open_slice (ordered ''asc'' [''1'', ''2'', ''3'']) ((- 2 - 1) * 1) (- 2 * 1) = [] \<and>
   snd (get_emails_stream test_client test_runtime test_server (- 2) 1 no_filter ''asc'' None) =
     ([test_dict], Completed)"
  by code_simp

section \<open>Properties of the session\<close>

lemma commands_finally_logout: "commands (finally_logout srv) = [Logout]"
  by (simp add: finally_logout_def split: option.splits)

lemma commands_then_do:
  "set (commands (fst (then_do m f))) \<subseteq>
   set (commands (fst m)) \<union> (\<Union>x. set (commands (fst (f x))))"
proof (cases m)
  case (Pair evs r)
  then show ?thesis
    by (cases r) (auto simp: then_do_def commands_append case_prod_unfold)
qed

lemma no_logout_then_do:
  assumes "Logout \<notin> set (commands (fst m))" and "\<And>x. Logout \<notin> set (commands (fst (f x)))"
  shows "Logout \<notin> set (commands (fst (then_do m f)))"
  using assms commands_then_do [of m f] by auto

lemma no_logout_search_ids: "Logout \<notin> set (commands (fst (search_ids self srv flt)))"
  unfolding search_ids_def Let_def
  by (intro no_logout_then_do)
    (auto simp: call_def logger_def split: option.splits list.splits)

lemma no_logout_count_body: "Logout \<notin> set (commands (fst (count_body self srv flt)))"
  unfolding count_body_def Let_def
  by (intro no_logout_then_do)
    (auto simp: call_def logger_def returns_def split: option.splits list.splits)

lemma commands_parse_flags: "commands (fst (parse_flags rt i fl)) = []"
  by (simp add: parse_flags_def Let_def)

lemma commands_scan_response: "commands (fst (scan_response rt data raw fl)) = []"
  by (induction data arbitrary: raw fl)
    (simp_all add: commands_append commands_parse_flags case_prod_unfold)

lemma commands_debug_response: "commands (debug_response data) = []"
  by (induction data) (simp_all add: debug_response_def)

lemma commands_process_message:
  "commands (fst (process_message rt srv m)) =
     (case bytes_decode rt m ''utf-8'' of
        Inl e \<Rightarrow> []
      | Inr uid \<Rightarrow> map (UidFetch uid) (attempted (attempt_ok srv uid) fetch_formats))"
proof (cases "bytes_decode rt m ''utf-8''")
  case (Inl e)
  then show ?thesis by (simp add: process_message_def)
next
  case (Inr uid)
  have tried: "commands (fst (try_formats srv uid fetch_formats None)) =
      map (UidFetch uid) (attempted (attempt_ok srv uid) fetch_formats)"
    by (rule try_formats_commands)
  obtain evs d where tf: "try_formats srv uid fetch_formats None = (evs, d)"
    by (cases "try_formats srv uid fetch_formats None")
  show ?thesis
  proof (cases d)
    case None
    with Inr tf tried show ?thesis by (simp add: process_message_def commands_append)
  next
    case (Some data)
    show ?thesis
    proof (cases data)
      case Nil
      with Some Inr tf tried show ?thesis by (simp add: process_message_def commands_append)
    next
      case (Cons i items)
      obtain evs' raw fl where sc: "scan_response rt (i # items) None [] = (evs', raw, fl)"
        by (cases "scan_response rt (i # items) None []")
      then have "commands evs' = []"
        using commands_scan_response [of rt "i # items" None "[]"] by simp
      with Cons Some Inr tf tried sc show ?thesis
        by (simp add: process_message_def commands_append commands_debug_response
            del: scan_response.simps split: option.splits sum.splits)
    qed
  qed
qed

lemma no_logout_process_message: "Logout \<notin> set (commands (fst (process_message rt srv m)))"
  by (auto simp: commands_process_message split: sum.splits)

lemma no_logout_fetch_loop: "Logout \<notin> set (commands (fst (fetch_loop rt srv ids consumer)))"
proof (induction ids arbitrary: consumer)
  case Nil
  show ?case by simp
next
  case (Cons m ids)
  obtain evs r where pm: "process_message rt srv m = (evs, r)"
    by (cases "process_message rt srv m")
  with no_logout_process_message [of rt srv m] have "Logout \<notin> set (commands evs)"
    by simp
  with pm Cons.IH show ?case
    by (cases r) (simp_all add: commands_append case_prod_unfold)
qed

lemma no_logout_stream_body:
  "Logout \<notin> set (commands (fst (stream_body self rt srv page page_size flt order' consumer)))"
proof -
  obtain evs r where s: "search_ids self srv flt = (evs, r)"
    by (cases "search_ids self srv flt")
  with no_logout_search_ids [of self srv flt] have "Logout \<notin> set (commands evs)"
    by simp
  with s show ?thesis
    using no_logout_fetch_loop [of rt srv]
    by (cases r) (simp_all add: stream_body_def commands_append case_prod_unfold)
qed

lemma try_formats_logout:
  "try_formats (srv\<lparr>logout := x\<rparr>) uid fs d = try_formats srv uid fs d"
  by (induction fs arbitrary: d) (simp_all split: sum.splits option.splits list.splits)

lemma process_message_logout:
  "process_message rt (srv\<lparr>logout := x\<rparr>) m = process_message rt srv m"
  by (simp add: process_message_def try_formats_logout cong: sum.case_cong)

lemma fetch_loop_logout:
  "fetch_loop rt (srv\<lparr>logout := x\<rparr>) ids consumer = fetch_loop rt srv ids consumer"
  by (induction ids arbitrary: consumer)
    (simp_all add: process_message_logout split: prod.splits option.splits)

lemma stream_body_logout:
  "stream_body self rt (srv\<lparr>logout := x\<rparr>) page page_size flt order' consumer =
   stream_body self rt srv page page_size flt order' consumer"
  by (simp add: stream_body_def search_ids_def fetch_loop_logout
      cong: prod.case_cong sum.case_cong)

lemma count_body_logout: "count_body self (srv\<lparr>logout := x\<rparr>) flt = count_body self srv flt"
  by (simp add: count_body_def)


lemma imap_class_not_logout: "imap_class self \<noteq> Logout"
  by (simp add: imap_class_def)

lemma count_logout_session:
  assumes "Logout \<notin> set (commands evs)"
  shows "count_list (commands (evs @ finally_logout srv)) Logout = 1"
    and "last (commands (evs @ finally_logout srv)) = Logout"
  using assms by (simp_all add: commands_append commands_finally_logout)

text \<open>
  C5. Once the session object is made and the generator has started, the events of a run
  of the stream hold exactly one logout, and it is the last command, whatever the
  session answers and wherever the run ends: at the end of the page, at a \<^verbatim>\<open>yield\<close>
  where the consumer closes the generator, or at a call that raises, also one of the
  calls that open the session. The same holds for the count. A logout that raises is
  logged, and what the operation yields, returns or raises is the same whatever the
  logout does.
\<close>

theorem logout_exactly_once:
  "(create srv = None \<and> consumer \<noteq> Some 0 \<longrightarrow>
      count_list (commands (fst (get_emails_stream self rt srv page page_size flt order' consumer)))
        Logout = 1 \<and>
      last (commands (fst (get_emails_stream self rt srv page page_size flt order' consumer))) =
        Logout) \<and>
   (create srv = None \<longrightarrow>
      count_list (commands (fst (get_email_count self srv flt))) Logout = 1 \<and>
      last (commands (fst (get_email_count self srv flt))) = Logout) \<and>
   (create srv = None \<and> consumer \<noteq> Some 0 \<and> logout srv \<noteq> None \<longrightarrow>
      last (fst (get_emails_stream self rt srv page page_size flt order' consumer)) =
        Log INFO ''Error during logout: {e}'' \<and>
      last (fst (get_email_count self srv flt)) = Log INFO ''Error during logout: {e}'') \<and>
   snd (get_emails_stream self rt (srv\<lparr>logout := outcome\<rparr>) page page_size flt order' consumer) =
     snd (get_emails_stream self rt srv page page_size flt order' consumer) \<and>
   snd (get_email_count self (srv\<lparr>logout := outcome\<rparr>) flt) = snd (get_email_count self srv flt)"
proof (intro conjI impI)
  assume open': "create srv = None \<and> consumer \<noteq> Some 0"
  obtain evs ys ex where body: "stream_body self rt srv page page_size flt order' consumer = (evs, ys, ex)"
    by (cases "stream_body self rt srv page page_size flt order' consumer")
  with no_logout_stream_body [of self rt srv page page_size flt order' consumer]
  have no: "Logout \<notin> set (commands evs)"
    by simp
  from open' body
  have run: "fst (get_emails_stream self rt srv page page_size flt order' consumer) =
      Cmd (imap_class self) # evs @ finally_logout srv"
    by (simp add: get_emails_stream_def)
  from no show "count_list
      (commands (fst (get_emails_stream self rt srv page page_size flt order' consumer))) Logout = 1"
    unfolding run by (simp add: count_logout_session imap_class_not_logout)
  from no show "last (commands (fst (get_emails_stream self rt srv page page_size flt order' consumer))) =
      Logout"
    unfolding run
    by (simp add: count_logout_session commands_append commands_finally_logout)
next
  assume open': "create srv = None"
  obtain evs r where body: "count_body self srv flt = (evs, r)"
    by (cases "count_body self srv flt")
  with no_logout_count_body [of self srv flt] have no: "Logout \<notin> set (commands evs)"
    by simp
  from open' body
  have run: "fst (get_email_count self srv flt) =
      Cmd (imap_class self) # evs @ finally_logout srv"
    by (simp add: get_email_count_def)
  from no show "count_list (commands (fst (get_email_count self srv flt))) Logout = 1"
    unfolding run by (simp add: count_logout_session imap_class_not_logout)
  from no show "last (commands (fst (get_email_count self srv flt))) = Logout"
    unfolding run
    by (simp add: count_logout_session commands_append commands_finally_logout)
next
  assume "create srv = None \<and> consumer \<noteq> Some 0 \<and> logout srv \<noteq> None"
  then show "last (fst (get_emails_stream self rt srv page page_size flt order' consumer)) =
      Log INFO ''Error during logout: {e}''"
    by (auto simp: get_emails_stream_def finally_logout_def case_prod_unfold)
next
  assume "create srv = None \<and> consumer \<noteq> Some 0 \<and> logout srv \<noteq> None"
  then show "last (fst (get_email_count self srv flt)) = Log INFO ''Error during logout: {e}''"
    by (auto simp: get_email_count_def finally_logout_def case_prod_unfold)
next
  show "snd (get_emails_stream self rt (srv\<lparr>logout := outcome\<rparr>) page page_size flt order' consumer) =
     snd (get_emails_stream self rt srv page page_size flt order' consumer)"
    by (simp add: get_emails_stream_def stream_body_logout case_prod_unfold split: option.splits)
next
  show "snd (get_email_count self (srv\<lparr>logout := outcome\<rparr>) flt) = snd (get_email_count self srv flt)"
    by (simp add: get_email_count_def count_body_logout case_prod_unfold split: option.splits)
qed

theorem logout_exactly_once_witness:
  "get_emails_stream test_client test_runtime broken_server 1 10 no_filter ''asc'' None =
     ([Cmd (Create True ''imap.example.org'' 993), Cmd ClientTask, Cmd WaitHello,
       Cmd (Login ''user@example.org'' ''secret''), Cmd Logout,
       Log INFO ''Error during logout: {e}''], [], Raised (OtherError ''rejected'')) \<and>
   count_list (commands
     (fst (get_emails_stream test_client test_runtime test_server 1 10 no_filter ''asc'' (Some 1))))
     Logout = 1 \<and>
   snd (get_emails_stream test_client test_runtime test_server 1 10 no_filter ''asc'' (Some 1)) =
     ([test_dict], Closed) \<and>
   count_list (commands (fst (get_email_count test_client broken_server no_filter))) Logout = 1 \<and>
   snd (get_email_count test_client (test_server\<lparr>logout := Some (OtherError ''not connected'')\<rparr>)
          no_filter) = Inr 3"
proof -
  have raised: "get_emails_stream test_client test_runtime broken_server 1 10 no_filter ''asc'' None =
     ([Cmd (Create True ''imap.example.org'' 993), Cmd ClientTask, Cmd WaitHello,
       Cmd (Login ''user@example.org'' ''secret''), Cmd Logout,
       Log INFO ''Error during logout: {e}''], [], Raised (OtherError ''rejected''))"
    by code_simp
  have closed: "snd (get_emails_stream test_client test_runtime test_server 1 10 no_filter ''asc''
      (Some 1)) = ([test_dict], Closed)"
    by code_simp
  have counted: "snd (get_email_count test_client test_server no_filter) = Inr 3"
    by code_simp
  have c: "create test_server = None" "create broken_server = None" "Some (1::nat) \<noteq> Some 0"
    by code_simp+
  from logout_exactly_once [where srv = test_server and consumer = "Some 1" and self = test_client
      and rt = test_runtime and page = 1 and page_size = 10 and flt = no_filter
      and order' = "''asc''"] c
  have one: "count_list (commands
     (fst (get_emails_stream test_client test_runtime test_server 1 10 no_filter ''asc'' (Some 1))))
     Logout = 1"
    by blast
  from logout_exactly_once [where srv = broken_server and self = test_client and flt = no_filter] c
  have two: "count_list (commands (fst (get_email_count test_client broken_server no_filter)))
      Logout = 1"
    by blast
  from logout_exactly_once [where srv = test_server and self = test_client and flt = no_filter
      and outcome = "Some (OtherError ''not connected'')"] counted
  have three: "snd (get_email_count test_client
      (test_server\<lparr>logout := Some (OtherError ''not connected'')\<rparr>) no_filter) = Inr 3"
    by simp
  from raised one closed two three show ?thesis by simp
qed

section \<open>Properties of sending\<close>

text \<open>
  C6. The message that \<^verbatim>\<open>send_email\<close> hands to the SMTP session is the one it hands
  over when no \<^verbatim>\<open>bcc\<close> is given: its headers are those of \<^verbatim>\<open>MIMEText\<close>, then
  \<^verbatim>\<open>Subject\<close>, \<^verbatim>\<open>From\<close>, \<^verbatim>\<open>To\<close> and, for a non-empty \<^verbatim>\<open>cc\<close>, \<^verbatim>\<open>Cc\<close>. The address list
  handed over with it is the recipients, then the \<^verbatim>\<open>cc\<close>, then the \<^verbatim>\<open>bcc\<close> addresses.
\<close>

theorem bcc_only_in_delivery_list:
  "sent_messages (fst (send_email self rt smtp recipients subject' body' cc bcc)) =
     sent_messages (fst (send_email self rt smtp recipients subject' body' cc None)) \<and>
   (\<forall>rs \<in> set (delivery_lists (fst (send_email self rt smtp recipients subject' body' cc bcc))).
      rs = recipients @ truthy_list cc @ truthy_list bcc \<and>
      set recipients \<union> set (truthy_list cc) \<union> set (truthy_list bcc) \<subseteq> set rs) \<and>
   (smtp_connect smtp = None \<and> smtp_login smtp = None \<longrightarrow>
      delivery_lists (fst (send_email self rt smtp recipients subject' body' cc bcc)) =
        [recipients @ truthy_list cc @ truthy_list bcc] \<and>
      map headers (sent_messages (fst (send_email self rt smtp recipients subject' body' cc bcc))) =
        [headers (MIMEText rt body') @
         [(''Subject'', subject'), (''From'', sender self), (''To'', join '', '' recipients)] @
         (if truthy_list cc = [] then [] else [(''Cc'', join '', '' (truthy_list cc))])])"
  by (auto simp: send_email_def Let_def all_recipients_def compose_message_def set_header_def
      split: option.splits)

theorem bcc_only_in_delivery_list_witness:
  "send_email test_client test_runtime test_smtp [''a@example.org''] ''Hi'' ''Hello''
     None (Some [''b@example.org'']) =
     ([SmtpConnect ''imap.example.org'' 993 False True,
       SmtpLogin ''user@example.org'' ''secret'',
       SendMessage
         \<lparr>headers = [(''Content-Type'', ''text/plain; charset=us-ascii''),
                     (''MIME-Version'', ''1.0''), (''Content-Transfer-Encoding'', ''7bit''),
                     (''Subject'', ''Hi''), (''From'', ''user@example.org''),
                     (''To'', ''a@example.org'')],
          text_payload = ''Hello''\<rparr>
         [''a@example.org'', ''b@example.org''],
       SmtpClose], Inr ()) \<and>
   sent_messages (fst (send_email test_client test_runtime test_smtp [''a@example.org''] ''Hi''
     ''Hello'' None (Some [''b@example.org'']))) =
   sent_messages (fst (send_email test_client test_runtime test_smtp [''a@example.org''] ''Hi''
     ''Hello'' None None))"
proof -
  have run: "send_email test_client test_runtime test_smtp [''a@example.org''] ''Hi'' ''Hello''
     None (Some [''b@example.org'']) =
     ([SmtpConnect ''imap.example.org'' 993 False True,
       SmtpLogin ''user@example.org'' ''secret'',
       SendMessage
         \<lparr>headers = [(''Content-Type'', ''text/plain; charset=us-ascii''),
                     (''MIME-Version'', ''1.0''), (''Content-Transfer-Encoding'', ''7bit''),
                     (''Subject'', ''Hi''), (''From'', ''user@example.org''),
                     (''To'', ''a@example.org'')],
          text_payload = ''Hello''\<rparr>
         [''a@example.org'', ''b@example.org''],
       SmtpClose], Inr ())"
    by code_simp
  from bcc_only_in_delivery_list [of test_client test_runtime test_smtp "[''a@example.org'']"
      "''Hi''" "''Hello''" None "Some [''b@example.org'']"]
  have "sent_messages (fst (send_email test_client test_runtime test_smtp [''a@example.org''] ''Hi''
     ''Hello'' None (Some [''b@example.org'']))) =
   sent_messages (fst (send_email test_client test_runtime test_smtp [''a@example.org''] ''Hi''
     ''Hello'' None None))"
    by blast
  with run show ?thesis by simp
qed

section \<open>Properties of the handler and the count\<close>

lemma snd_then_do:
  "snd (then_do m f) = (case snd m of Inl e \<Rightarrow> Inl e | Inr x \<Rightarrow> snd (f x))"
  by (cases m) (auto simp: then_do_def split: prod.splits sum.splits)

lemma snd_count_body_Inr:
  assumes "snd (count_body self srv flt) = Inr n"
  shows "\<exists>m ms. uid_search srv (build_search_criteria flt) = Inr (Some (m # ms)) \<and>
           n = int (length (bytes_split m))"
  using assms
  by (auto simp: count_body_def snd_then_do call_def logger_def returns_def Let_def
      split: option.splits sum.splits list.splits)

lemma snd_get_email_count_Inr:
  assumes "snd (get_email_count self srv flt) = Inr n"
  shows "\<exists>m ms. uid_search srv (build_search_criteria flt) = Inr (Some (m # ms)) \<and>
           n = int (length (bytes_split m))"
proof -
  from assms have "snd (count_body self srv flt) = Inr n"
    by (auto simp: get_email_count_def case_prod_unfold split: option.splits)
  then show ?thesis by (rule snd_count_body_Inr)
qed

lemma get_emails_total:
  assumes "get_emails client rt s1 s2 page page_size flt order' = (evs, Inr r)"
  shows "snd (get_email_count client s2 flt) = Inr (r_total r)"
proof -
  obtain e1 ys ex where st: "get_emails_stream client rt s1 page page_size flt order' None = (e1, ys, ex)"
    by (cases "get_emails_stream client rt s1 page page_size flt order' None")
  obtain e2 c where ct: "get_email_count client s2 flt = (e2, c)"
    by (cases "get_email_count client s2 flt")
  from assms st ct show ?thesis
    by (cases ex; cases c) (auto simp: get_emails_def then_do_def returns_def)
qed


text \<open>
  C9. When \<^verbatim>\<open>get_emails\<close> returns a page, its \<^verbatim>\<open>total\<close> is what \<^verbatim>\<open>get_email_count\<close>
  returns in its own session for the same filter: the number of identifiers in the first
  line of that session's search result for the criteria built from the filter. It is the
  same for every page number, page size and order for which a page is returned.
\<close>

theorem total_is_independent_count:
  assumes "get_emails client rt s1 s2 page page_size flt order' = (evs, Inr r)"
  shows "snd (get_email_count client s2 flt) = Inr (r_total r) \<and>
         (\<exists>m ms. uid_search s2 (build_search_criteria flt) = Inr (Some (m # ms)) \<and>
            r_total r = int (length (bytes_split m))) \<and>
         (\<forall>page' page_size' order'' evs' r'.
            get_emails client rt s1 s2 page' page_size' flt order'' = (evs', Inr r') \<longrightarrow>
            r_total r' = r_total r)"
proof (intro conjI allI impI)
  show total: "snd (get_email_count client s2 flt) = Inr (r_total r)"
    using assms by (rule get_emails_total)
  then show "\<exists>m ms. uid_search s2 (build_search_criteria flt) = Inr (Some (m # ms)) \<and>
      r_total r = int (length (bytes_split m))"
    by (rule snd_get_email_count_Inr)
  fix page' page_size' order'' evs' r'
  assume "get_emails client rt s1 s2 page' page_size' flt order'' = (evs', Inr r')"
  then have "snd (get_email_count client s2 flt) = Inr (r_total r')"
    by (rule get_emails_total)
  with total show "r_total r' = r_total r" by simp
qed

theorem total_is_independent_count_witness:
  "snd (get_emails test_client test_runtime test_server test_server 1 1 no_filter ''desc'') =
     Inr \<lparr>r_page = 1, r_page_size = 1, r_before = None, r_since = None, r_subject = None,
          r_body = None, r_text = None, r_emails = [from_email test_dict], r_total = 3\<rparr> \<and>
   snd (get_email_count test_client test_server no_filter) = Inr 3 \<and>
   uid_search test_server (build_search_criteria no_filter) =
     Inr (Some [''1 2 3'', ''Search completed'']) \<and>
   length (bytes_split ''1 2 3'') = 3"
proof -
  obtain evs where run: "get_emails test_client test_runtime test_server test_server 1 1 no_filter ''desc'' =
     (evs, Inr \<lparr>r_page = 1, r_page_size = 1, r_before = None, r_since = None, r_subject = None,
          r_body = None, r_text = None, r_emails = [from_email test_dict], r_total = 3\<rparr>)"
  proof -
    have "snd (get_emails test_client test_runtime test_server test_server 1 1 no_filter ''desc'') =
     Inr \<lparr>r_page = 1, r_page_size = 1, r_before = None, r_since = None, r_subject = None,
          r_body = None, r_text = None, r_emails = [from_email test_dict], r_total = 3\<rparr>"
      by code_simp
    then show ?thesis
      using that by (cases "get_emails test_client test_runtime test_server test_server 1 1 no_filter ''desc''") simp
  qed
  have search: "uid_search test_server (build_search_criteria no_filter) =
     Inr (Some [''1 2 3'', ''Search completed''])"
    by code_simp
  have three: "length (bytes_split ''1 2 3'') = 3"
    by code_simp
  from total_is_independent_count [OF run]
  have "snd (get_email_count test_client test_server no_filter) = Inr 3"
    by simp
  with run search three show ?thesis by simp
qed

text \<open>The stream's half of C7: a search without a result gives an empty stream.\<close>

lemma search_ids_no_result:
  assumes "search_ids self srv flt = (evs, Inr ids)"
    and "uid_search srv (build_search_criteria flt) = Inr None \<or>
         uid_search srv (build_search_criteria flt) = Inr (Some []) \<or>
         (\<exists>ms. uid_search srv (build_search_criteria flt) = Inr (Some ([] # ms)))"
  shows "ids = []"
  using assms
  by (auto simp: search_ids_def snd_then_do call_def logger_def Let_def then_do_def
      split: option.splits sum.splits list.splits prod.splits if_splits)

lemma page_window_Nil: "page_window order' page page_size [] = []"
  by (simp add: page_window_def py_slice_def Let_def)

lemma stream_of_no_result:
  assumes "create srv = None" and "search_ids self srv flt = (evs, Inr ids)"
    and "uid_search srv (build_search_criteria flt) = Inr None \<or>
         uid_search srv (build_search_criteria flt) = Inr (Some []) \<or>
         (\<exists>ms. uid_search srv (build_search_criteria flt) = Inr (Some ([] # ms)))"
  shows "snd (get_emails_stream self rt srv page page_size flt order' None) = ([], Completed)"
proof -
  from assms(2,3) have "ids = []" by (rule search_ids_no_result)
  with assms(1,2) show ?thesis
    by (simp add: stream_all page_window_Nil map_filter_simps)
qed

text \<open>
  C7 does not hold of the count. Where the search result is an empty list or \<^verbatim>\<open>None\<close> the
  stream yields nothing and completes, and the count raises \<^verbatim>\<open>IndexError\<close> or
  \<^verbatim>\<open>TypeError\<close>; it returns 0 only for a result whose first line is empty.
\<close>

theorem count_raises_on_missing_result:
  "snd (get_emails_stream test_client test_runtime (test_server\<lparr>uid_search := \<lambda>c. Inr (Some [])\<rparr>)
          1 10 no_filter ''desc'' None) = ([], Completed) \<and>
   snd (get_email_count test_client (test_server\<lparr>uid_search := \<lambda>c. Inr (Some [])\<rparr>) no_filter) =
     Inl IndexError \<and>
   snd (get_emails_stream test_client test_runtime (test_server\<lparr>uid_search := \<lambda>c. Inr None\<rparr>)
          1 10 no_filter ''desc'' None) = ([], Completed) \<and>
   snd (get_email_count test_client (test_server\<lparr>uid_search := \<lambda>c. Inr None\<rparr>) no_filter) =
     Inl TypeError \<and>
   snd (get_email_count test_client (test_server\<lparr>uid_search := \<lambda>c. Inr (Some [[]])\<rparr>) no_filter) =
     Inr 0"
  by code_simp

section \<open>Properties of the parser\<close>

text \<open>
  What the parser does keep: the clock's time for a date that does not parse, and a
  result for every input when decoding raises nothing but \<^verbatim>\<open>UnicodeDecodeError\<close>.
\<close>

lemma parse_date_fallback:
  "parsedate_tz rt s = Inl e \<or> parsedate_tz rt s = Inr None \<Longrightarrow> parse_date rt s = now rt"
  by (auto simp: parse_date_def)

lemma decode_or_replace_returns:
  assumes "only_unicode_errors rt"
  shows "\<exists>s. decode_or_replace rt bs charset = Inr s"
proof (cases "bytes_decode rt bs charset")
  case (Inl e)
  with assms have "e = UnicodeDecodeError"
    by (auto simp: only_unicode_errors_def)
  with Inl show ?thesis by (simp add: decode_or_replace_def)
next
  case (Inr s)
  then show ?thesis by (simp add: decode_or_replace_def)
qed

lemma walk_parts_returns:
  assumes "only_unicode_errors rt"
  shows "\<exists>r. walk_parts rt parts b as = Inr r"
proof (induction parts arbitrary: b as)
  case Nil
  show ?case by simp
next
  case (Cons part parts)
  obtain s where
    dec: "decode_or_replace rt (case payload part of None \<Rightarrow> [] | Some p \<Rightarrow> p)
            (get_content_charset part) = Inr s"
    using decode_or_replace_returns [OF assms] by blast
  show ?case
    using Cons.IH dec by (simp split: option.splits)
qed

lemma parse_email_data_returns:
  assumes "only_unicode_errors rt"
  shows "\<exists>p. parse_email_data rt raw = Inr p"
proof -
  let ?msg = "parsebytes rt raw"
  obtain r where
    walk: "walk_parts rt (root ?msg # subparts ?msg) [] [] = Inr r"
    using walk_parts_returns [OF assms] by blast
  obtain s where
    dec: "decode_or_replace rt (case payload (root ?msg) of None \<Rightarrow> [] | Some p \<Rightarrow> p)
            (get_content_charset (root ?msg)) = Inr s"
    using decode_or_replace_returns [OF assms] by blast
  show ?thesis
  proof (cases "is_multipart ?msg")
    case True
    with walk show ?thesis
      by (cases r) (simp add: parse_email_data_def Let_def del: walk_parts.simps)
  next
    case False
    with dec show ?thesis
      by (simp add: parse_email_data_def Let_def split: option.splits)
  qed
qed

text \<open>
  C3 does not hold of a character set that Python does not know. The parser falls back
  to the lossy decoding for bytes that are not valid in their character set, and to the
  clock for a missing date; for an unknown character set \<^verbatim>\<open>decode\<close> raises
  \<^verbatim>\<open>LookupError\<close>, which the parser does not catch.
\<close>

theorem parser_raises_on_unknown_charset:
  "parse_email_data test_runtime [CHR 0xFF, CHR ''a''] =
     Inr \<lparr>k_subject = [], k_from = [], k_body = [CHR 0xEF, CHR 0xBF, CHR 0xBD, CHR ''a''],
          k_date = test_clock, k_attachments = []\<rparr> \<and>
   parse_email_data test_runtime unknown_charset_mail = Inl LookupError"
  by code_simp

end
